theory Spec2Isabelle
  imports Main "HOL-Library.Sublist" "HOL-Library.Log_Nat"
begin

section \<open>The arbitrage finder (supabase/functions/arbitrage-finder/index.ts)\<close>

text \<open>
  A shallow embedding of the edge function that takes a market URL of Polymarket or Kalshi,
  fetches the event, asks a language model for a short search query, searches the other
  platform and, when there are candidates, asks a language model for an arbitrage verdict.

  Everything the function gets from outside (the URL constructor, \<open>JSON.parse\<close>,
  \<open>parseFloat\<close>, the two market APIs, the two language-model clients and the two prompt
  templates) is a field of the record \<open>env\<close>; the functions of the file are HOL functions
  over it, and a thrown exception is the \<open>Inl\<close> of a sum.
\<close>

subsection \<open>Strings\<close>

text \<open>
  A JavaScript string is modelled by a \<^typ>\<open>string\<close>: the character with code \<open>n\<close> stands
  for the UTF-16 code unit \<open>n\<close>, so the model covers the strings over U+0000 .. U+00FF.
\<close>

definition code :: "char \<Rightarrow> nat" where
  "code c = of_char c"

text \<open>\<open>String.prototype.toLowerCase\<close> on that range: A-Z and the Latin-1 capitals.\<close>

definition toLowerCase_char :: "char \<Rightarrow> char" where
  "toLowerCase_char c =
     (if (65 \<le> code c \<and> code c \<le> 90) \<or> (192 \<le> code c \<and> code c \<le> 222 \<and> code c \<noteq> 215)
      then char_of (code c + 32) else c)"

definition toLowerCase :: "string \<Rightarrow> string" where
  "toLowerCase s = map toLowerCase_char s"

text \<open>
  \<open>String.prototype.toUpperCase\<close>, which the file applies to a segment of a URL's
  \<open>pathname\<close> only. A pathname is ASCII (the URL parser percent-encodes everything else),
  and on ASCII upper-casing changes a-z and nothing else.
\<close>

definition toUpperCase_char :: "char \<Rightarrow> char" where
  "toUpperCase_char c = (if 97 \<le> code c \<and> code c \<le> 122 then char_of (code c - 32) else c)"

definition toUpperCase :: "string \<Rightarrow> string" where
  "toUpperCase s = map toUpperCase_char s"

text \<open>\<open>s.includes(p)\<close>: \<open>p\<close> occurs in \<open>s\<close> as a contiguous run.\<close>

fun str_includes :: "string \<Rightarrow> string \<Rightarrow> bool" where
  "str_includes [] p = (p = [])"
| "str_includes (c # cs) p = (prefix p (c # cs) \<or> str_includes cs p)"

text \<open>
  \<open>s.split(sep)\<close> for a separator of one character: the string is cut at every
  occurrence, and \<open>''''.split(sep)\<close> is \<open>['''']\<close>. \<open>cur\<close> is the piece being read, reversed.
\<close>

fun splitAcc :: "char \<Rightarrow> string \<Rightarrow> string \<Rightarrow> string list" where
  "splitAcc sep cur [] = [rev cur]"
| "splitAcc sep cur (c # cs) =
     (if c = sep then rev cur # splitAcc sep [] cs else splitAcc sep (c # cur) cs)"

definition str_split :: "char \<Rightarrow> string \<Rightarrow> string list" where
  "str_split sep s = splitAcc sep [] s"

text \<open>\<open>xs[i]\<close>: \<open>undefined\<close> (here \<open>None\<close>) out of range.\<close>

definition idx :: "'a list \<Rightarrow> nat \<Rightarrow> 'a option" where
  "idx xs i = (if i < length xs then Some (xs ! i) else None)"

text \<open>\<open>xs.join(sep)\<close>.\<close>

fun join :: "string \<Rightarrow> string list \<Rightarrow> string" where
  "join sep [] = []"
| "join sep [x] = x"
| "join sep (x # y # ys) = x @ sep @ join sep (y # ys)"

text \<open>
  White space as \<open>trim\<close> and the regular expression class \<open>\s\<close> see it, on the modelled
  range: tab, line feed, vertical tab, form feed, carriage return, space, no-break space.
\<close>

definition isSpace :: "char \<Rightarrow> bool" where
  "isSpace c = (code c \<in> {9, 10, 11, 12, 13, 32, 160})"

definition trim :: "string \<Rightarrow> string" where
  "trim s = rev (dropWhile isSpace (rev (dropWhile isSpace s)))"

text \<open>\<open>s.replace(/['"]/g, '')\<close>: every apostrophe and every double quote is removed.\<close>

definition isQuote :: "char \<Rightarrow> bool" where
  "isQuote c = (code c = 39 \<or> code c = 34)"

definition removeQuotes :: "string \<Rightarrow> string" where
  "removeQuotes s = filter (\<lambda>c. \<not> isQuote c) s"

text \<open>
  \<open>s.split(/\s+/)\<close>: the string is cut at every maximal run of white space. A run at the
  start or at the end leaves an empty piece there, and the empty string gives \<open>['''']\<close>.
  \<open>cur\<close> is the piece being read, reversed.
\<close>

function splitSpaces :: "string \<Rightarrow> string \<Rightarrow> string list" where
  "splitSpaces cur [] = [rev cur]"
| "splitSpaces cur (c # cs) =
     (if isSpace c then rev cur # splitSpaces [] (dropWhile isSpace cs)
      else splitSpaces (c # cur) cs)"
  by pat_completeness auto
termination
  by (relation "measure (\<lambda>(cur, s). length s)")
     (auto simp: le_imp_less_Suc length_dropWhile_le)

text \<open>\<open>slug.replace(/-/g, ' ')\<close>.\<close>

definition dashesToSpaces :: "string \<Rightarrow> string" where
  "dashesToSpaces s = map (\<lambda>c. if c = CHR ''-'' then CHR '' '' else c) s"

subsection \<open>Model routing\<close>

definition OPENAI_MODELS :: "string list" where
  "OPENAI_MODELS = [''gpt-5.2'', ''gpt-5.1'', ''gpt-5-nano'', ''gpt-4.1'', ''gpt-4.1-mini'']"

definition isOpenAIModel :: "string \<Rightarrow> bool" where
  "isOpenAIModel model = (model \<in> set OPENAI_MODELS \<or> prefix ''gpt-'' model)"

subsection \<open>Numbers\<close>

text \<open>
  A JavaScript number is an IEEE 754 double: \<open>NaN\<close>, an infinity, or a finite value, given
  here by the rational it denotes. The two zeros are one value (the file never divides by
  a variable, so nothing in it tells them apart). Arithmetic on finite values computes the
  exact rational and rounds it to the nearest double, ties to the even significand.
\<close>

datatype jsnum = NaN | PosInf | NegInf | Fin rat

text \<open>\<open>ilog2 q\<close> is the binary exponent of \<open>q \<noteq> 0\<close>: \<open>2 powi ilog2 q \<le> \<bar>q\<bar> < 2 powi (ilog2 q + 1)\<close>.\<close>

definition ilog2 :: "rat \<Rightarrow> int" where
  "ilog2 q =
     (let k = bitlen (fst (quotient_of \<bar>q\<bar>)) - bitlen (snd (quotient_of \<bar>q\<bar>))
      in if 2 powi k \<le> \<bar>q\<bar> then k else k - 1)"

definition roundHalfEven :: "rat \<Rightarrow> int" where
  "roundHalfEven x =
     (let f = \<lfloor>x\<rfloor>; r = x - of_int f
      in if r < 1 / 2 then f else if 1 / 2 < r then f + 1 else if even f then f else f + 1)"

text \<open>
  Rounding to a double: 53 significant bits, the unit in the last place never below
  \<open>2 powi - 1074\<close> (the subnormal range), and an infinity from \<open>2 ^ 1024\<close> on.
\<close>

definition roundDouble :: "rat \<Rightarrow> jsnum" where
  "roundDouble q =
     (if q = 0 then Fin 0
      else let u = 2 powi (max (ilog2 q - 52) (- 1074));
               r = of_int (roundHalfEven (q / u)) * u
           in if 2 ^ 1024 \<le> \<bar>r\<bar> then (if 0 < q then PosInf else NegInf) else Fin r)"

fun js_neg :: "jsnum \<Rightarrow> jsnum" where
  "js_neg NaN = NaN"
| "js_neg PosInf = NegInf"
| "js_neg NegInf = PosInf"
| "js_neg (Fin a) = Fin (- a)"

fun js_add :: "jsnum \<Rightarrow> jsnum \<Rightarrow> jsnum" where
  "js_add (Fin a) (Fin b) = roundDouble (a + b)"
| "js_add NaN y = NaN"
| "js_add x NaN = NaN"
| "js_add PosInf NegInf = NaN"
| "js_add NegInf PosInf = NaN"
| "js_add PosInf y = PosInf"
| "js_add NegInf y = NegInf"
| "js_add x PosInf = PosInf"
| "js_add x NegInf = NegInf"

definition js_sub :: "jsnum \<Rightarrow> jsnum \<Rightarrow> jsnum" where
  "js_sub x y = js_add x (js_neg y)"

text \<open>The sign of a product or quotient with an infinity; a zero has none.\<close>

definition signed_inf :: "bool \<Rightarrow> jsnum" where
  "signed_inf positive = (if positive then PosInf else NegInf)"

fun js_mul :: "jsnum \<Rightarrow> jsnum \<Rightarrow> jsnum" where
  "js_mul (Fin a) (Fin b) = roundDouble (a * b)"
| "js_mul NaN y = NaN"
| "js_mul x NaN = NaN"
| "js_mul (Fin a) PosInf = (if a = 0 then NaN else signed_inf (0 < a))"
| "js_mul (Fin a) NegInf = (if a = 0 then NaN else signed_inf (a < 0))"
| "js_mul PosInf (Fin b) = (if b = 0 then NaN else signed_inf (0 < b))"
| "js_mul NegInf (Fin b) = (if b = 0 then NaN else signed_inf (b < 0))"
| "js_mul PosInf PosInf = PosInf"
| "js_mul PosInf NegInf = NegInf"
| "js_mul NegInf PosInf = NegInf"
| "js_mul NegInf NegInf = PosInf"

text \<open>\<open>x / 2\<close>, the only division of the file.\<close>

fun js_half :: "jsnum \<Rightarrow> jsnum" where
  "js_half (Fin a) = roundDouble (a / 2)"
| "js_half x = x"

text \<open>\<open>ToBoolean\<close> on a number: \<open>NaN\<close> and zero are falsy.\<close>

definition truthyNum :: "jsnum \<Rightarrow> bool" where
  "truthyNum x = (x \<noteq> NaN \<and> x \<noteq> Fin 0)"

subsection \<open>Values\<close>

text \<open>What \<open>JSON.parse\<close> returns, and \<open>undefined\<close>.\<close>

datatype jsval =
    JUndefined
  | JNull
  | JBool bool
  | JNum jsnum
  | JStr string
  | JArr "jsval list"
  | JObj "(string \<times> jsval) list"

fun truthy :: "jsval \<Rightarrow> bool" where
  "truthy JUndefined = False"
| "truthy JNull = False"
| "truthy (JBool b) = b"
| "truthy (JNum x) = truthyNum x"
| "truthy (JStr s) = (s \<noteq> [])"
| "truthy (JArr xs) = True"
| "truthy (JObj kvs) = True"

text \<open>
  \<open>v.k\<close> for the property names the file reads from the parsed verdict, none of which is a
  property of an array, a string, a number or a boolean. Reading from \<open>null\<close> throws, which
  the caller tests before.
\<close>

fun field :: "jsval \<Rightarrow> string \<Rightarrow> jsval" where
  "field (JObj kvs) k = (case map_of kvs k of Some x \<Rightarrow> x | None \<Rightarrow> JUndefined)"
| "field v k = JUndefined"

text \<open>\<open>v[0]\<close>: \<open>None\<close> is the TypeError of reading from \<open>null\<close> or \<open>undefined\<close>.\<close>

fun index0 :: "jsval \<Rightarrow> jsval option" where
  "index0 JUndefined = None"
| "index0 JNull = None"
| "index0 (JArr xs) = Some (case xs of [] \<Rightarrow> JUndefined | x # rest \<Rightarrow> x)"
| "index0 (JStr s) = Some (case s of [] \<Rightarrow> JUndefined | c # rest \<Rightarrow> JStr [c])"
| "index0 (JObj kvs) = Some (field (JObj kvs) ''0'')"
| "index0 v = Some JUndefined"

text \<open>\<open>a || b\<close> on a string that may be absent: the first when it is a non-empty string.\<close>

definition orElse :: "string option \<Rightarrow> string \<Rightarrow> string" where
  "orElse a b = (case a of None \<Rightarrow> b | Some s \<Rightarrow> if s = [] then b else s)"

text \<open>The truthiness of such a string.\<close>

definition present :: "string option \<Rightarrow> bool" where
  "present a = (case a of None \<Rightarrow> False | Some s \<Rightarrow> s \<noteq> [])"

text \<open>\<open>ToNumber\<close> of a number that may be absent: \<open>undefined\<close> is \<open>NaN\<close>.\<close>

definition toNumber :: "jsnum option \<Rightarrow> jsnum" where
  "toNumber a = (case a of None \<Rightarrow> NaN | Some x \<Rightarrow> x)"

subsection \<open>Data model\<close>

datatype ArbitrageMarketSource = Polymarket | Kalshi

text \<open>The string of a source: \<open>'polymarket'\<close> or \<open>'kalshi'\<close>.\<close>

fun sourceName :: "ArbitrageMarketSource \<Rightarrow> string" where
  "sourceName Polymarket = ''polymarket''"
| "sourceName Kalshi = ''kalshi''"

record SimplifiedMarket =
  title :: string
  yesPrice :: jsnum

record SourceEventData =
  eventTitle :: string
  markets :: "SimplifiedMarket list"
  source :: ArbitrageMarketSource

text \<open>
  \<open>ArbitrageMarketData\<close>, each field with the prefix \<open>md_\<close>; \<open>rawData\<close> is the event title
  with all the markets.
\<close>

record ArbitrageMarketData =
  md_source :: ArbitrageMarketSource
  md_name :: string
  md_identifier :: string
  md_yesPrice :: jsnum
  md_noPrice :: jsnum
  md_url :: string
  md_rawData :: "(string \<times> SimplifiedMarket list) option"

text \<open>
  A platform slot of the analysis holds the record built in this file, or the value the
  language model reported as \<open>matchedMarket\<close>.
\<close>

datatype slot = Projection ArbitrageMarketData | Reported jsval

record ArbitrageAnalysis =
  isSameMarket :: jsval
  sameMarketConfidence :: jsval
  marketComparisonReasoning :: jsval
  polymarketData :: "slot option"
  kalshiData :: "slot option"
  arbitrage :: jsval
  summary :: jsval
  risks :: jsval
  recommendation :: jsval

text \<open>
  The metadata of a response, without \<open>requestId\<close>, \<open>timestamp\<close> and \<open>processingTimeMs\<close>
  (a fresh token and two clock readings).
\<close>

record metadata =
  meta_model :: string
  tokensUsed :: "nat option"
  sourceMarket :: string
  searchedMarket :: string

record ArbitrageResponse =
  success :: bool
  data :: "ArbitrageAnalysis option"
  error :: "string option"
  meta :: "metadata option"

text \<open>A response: the empty answer to \<open>OPTIONS\<close>, or a status with a JSON body.\<close>

datatype response = Preflight | Response nat ArbitrageResponse

text \<open>
  The request: its method and its body, which \<open>req.json()\<close> rejects or reads as an
  \<open>ArbitrageRequest\<close> whose two fields may be absent.
\<close>

datatype body = InvalidJson | Body "string option" "string option"

record request =
  req_method :: string
  req_body :: body

subsection \<open>Upstream payloads\<close>

text \<open>A market of the Polymarket (Gamma) API, with the fields the file reads.\<close>

record gamma_market =
  question :: "string option"
  gm_title :: "string option"
  outcomePrices :: "string option"

text \<open>An event of the Gamma API; \<open>ge_markets\<close> is \<open>None\<close> when \<open>markets\<close> is not an array.\<close>

record gamma_event =
  ge_title :: "string option"
  ge_markets :: "gamma_market list option"

text \<open>A market and an event of the DFlow \<open>/event/{ticker}\<close> endpoint (Kalshi).\<close>

record dflow_market =
  dm_title :: "string option"
  last_price :: "jsnum option"
  yes_bid :: "jsnum option"
  yes_ask :: "jsnum option"

record dflow_event =
  de_title :: "string option"
  de_markets :: "dflow_market list option"

text \<open>A market and an event of the DFlow \<open>/search\<close> endpoint, and its response.\<close>

record search_market =
  sm_title :: "string option"
  yesAsk :: "string option"
  yesBid :: "string option"

record search_event =
  se_markets :: "search_market list option"

record search_response =
  events :: "search_event list option"

text \<open>
  What \<open>fetch\<close> followed by \<open>response.json()\<close> comes to: an exception, a status that is not
  \<open>ok\<close>, or the payload.
\<close>

datatype 'a reply = Rejected string | HttpError nat | Payload 'a

subsection \<open>Language-model clients\<close>

datatype backend = OpenAI | Grok

datatype outputMode = TextMode | JsonObject

record outputText =
  fragment :: "string option"

record outputItem =
  item_type :: string
  item_content :: "outputText list"

record aiResponse =
  ai_output :: "outputItem list"
  ai_model :: string
  total_tokens :: "nat option"

text \<open>
  One call of a client: the backend, then the five arguments (user prompt, system prompt,
  output mode, model, token budget).
\<close>

datatype aiCall = AICall backend string string outputMode string nat

subsection \<open>The environment\<close>

text \<open>
  \<^item> \<open>newURL u\<close>: the \<open>pathname\<close> of \<open>new URL(u)\<close>, \<open>None\<close> when the constructor throws;
  \<^item> \<open>JSON_parse s\<close>: the value, or \<open>Inl\<close> the message of the SyntaxError;
  \<^item> \<open>parseFloat v\<close>: the global \<open>parseFloat\<close>;
  \<^item> \<open>typeErrorMessage k\<close>: the message of the TypeError of reading \<open>k\<close> from \<open>null\<close>;
  \<^item> \<open>gammaEvent slug\<close>: \<open>GET {GAMMA_API_URL}/events/slug/{slug}\<close>;
  \<^item> \<open>gammaSearch q\<close>: \<open>GET {GAMMA_API_URL}/events?status=open&q={q}\<close>, \<open>Payload None\<close> when
    the body is not an array;
  \<^item> \<open>dflowEvent ticker\<close>: \<open>dflowRequest('/event/{ticker}', withNestedMarkets)\<close>, \<open>Inl\<close> when
    it throws;
  \<^item> \<open>dflowSearch q\<close>: \<open>dflowRequest('/search', q, event_status open, withNestedMarkets)\<close>;
  \<^item> \<open>callOpenAIResponses\<close>, \<open>callGrokResponses\<close>: the two clients, \<open>Inl\<close> the message of
    what they throw;
  \<^item> \<open>searchQueryGeneratorPrompt\<close>, \<open>arbitrageAnalysisPrompt\<close>: the two prompt templates,
    each giving the system prompt and the user prompt.
\<close>

record env =
  newURL :: "string \<Rightarrow> string option"
  JSON_parse :: "string \<Rightarrow> string + jsval"
  parseFloat :: "jsval \<Rightarrow> jsnum"
  typeErrorMessage :: "string \<Rightarrow> string"
  gammaEvent :: "string \<Rightarrow> gamma_event reply"
  gammaSearch :: "string \<Rightarrow> gamma_event list option reply"
  dflowEvent :: "string \<Rightarrow> string + dflow_event"
  dflowSearch :: "string \<Rightarrow> string + search_response"
  callOpenAIResponses :: "string \<Rightarrow> string \<Rightarrow> outputMode \<Rightarrow> string \<Rightarrow> nat \<Rightarrow> string + aiResponse"
  callGrokResponses :: "string \<Rightarrow> string \<Rightarrow> outputMode \<Rightarrow> string \<Rightarrow> nat \<Rightarrow> string + aiResponse"
  searchQueryGeneratorPrompt ::
    "string \<Rightarrow> ArbitrageMarketSource \<Rightarrow> ArbitrageMarketSource \<Rightarrow> string \<times> string"
  arbitrageAnalysisPrompt ::
    "ArbitrageMarketData \<Rightarrow> SimplifiedMarket list \<Rightarrow> ArbitrageMarketSource \<Rightarrow> string \<times> string"

subsection \<open>URL parsing\<close>

definition detectPlatform :: "string \<Rightarrow> ArbitrageMarketSource option" where
  "detectPlatform u =
     (let lowerUrl = toLowerCase u
      in if str_includes lowerUrl ''polymarket.com'' then Some Polymarket
         else if str_includes lowerUrl ''kalshi.com'' then Some Kalshi
         else None)"

text \<open>\<open>urlObj.pathname.split('/').filter(p => p)\<close>.\<close>

definition pathParts :: "string \<Rightarrow> string list" where
  "pathParts pathname = filter (\<lambda>p. p \<noteq> []) (str_split CHR ''/'' pathname)"

definition extractPolymarketSlug :: "env \<Rightarrow> string \<Rightarrow> string option" where
  "extractPolymarketSlug env u =
     (case newURL env u of
        None \<Rightarrow> None
      | Some pathname \<Rightarrow>
          (let parts = pathParts pathname
           in if idx parts 0 = Some ''event'' \<and> 2 \<le> length parts then Some (parts ! 1)
              else None))"

definition extractKalshiTicker :: "env \<Rightarrow> string \<Rightarrow> string option" where
  "extractKalshiTicker env u =
     (case newURL env u of
        None \<Rightarrow> None
      | Some pathname \<Rightarrow>
          (let parts = pathParts pathname
           in if (idx parts 0 = Some ''markets'' \<or> idx parts 0 = Some ''events'')
                 \<and> 2 \<le> length parts
              then (let ticker = (if 4 \<le> length parts then parts ! (length parts - 1)
                                  else parts ! 1)
                    in Some (toUpperCase ticker))
              else None))"

subsection \<open>Data fetching\<close>

text \<open>
  The body of the loop over the markets of a Gamma event, the same text in
  \<open>fetchPolymarketEvent\<close> and in \<open>searchPolymarket\<close>. The price first: the default, replaced
  when \<open>outcomePrices\<close> is truthy and neither \<open>JSON.parse\<close> nor the read of \<open>prices[0]\<close>
  throws.
\<close>

definition polymarketYesPrice :: "env \<Rightarrow> gamma_market \<Rightarrow> jsnum" where
  "polymarketYesPrice env market =
     (if present (outcomePrices market)
      then (case JSON_parse env (the (outcomePrices market)) of
              Inl e \<Rightarrow> Fin 50
            | Inr prices \<Rightarrow>
                (case index0 prices of
                   None \<Rightarrow> Fin 50
                 | Some p \<Rightarrow> js_mul (parseFloat env p) (Fin 100)))
      else Fin 50)"

text \<open>Then the market is pushed when its title is truthy (\<open>None\<close>: nothing is pushed).\<close>

definition polymarketMarket :: "env \<Rightarrow> gamma_market \<Rightarrow> SimplifiedMarket option" where
  "polymarketMarket env market =
     (let t = orElse (question market) (orElse (gm_title market) []);
          y = polymarketYesPrice env market
      in if t \<noteq> [] then Some \<lparr>title = t, yesPrice = y\<rparr> else None)"

definition polymarketMarkets :: "env \<Rightarrow> gamma_market list option \<Rightarrow> SimplifiedMarket list" where
  "polymarketMarkets env ms =
     (case ms of None \<Rightarrow> [] | Some xs \<Rightarrow> List.map_filter (polymarketMarket env) xs)"

definition fetchPolymarketEvent :: "env \<Rightarrow> string \<Rightarrow> SourceEventData option" where
  "fetchPolymarketEvent env slug =
     (case gammaEvent env slug of
        Rejected e \<Rightarrow> None
      | HttpError st \<Rightarrow> None
      | Payload event \<Rightarrow>
          Some \<lparr>eventTitle = orElse (ge_title event) (dashesToSpaces slug),
                markets = polymarketMarkets env (ge_markets event),
                source = Polymarket\<rparr>)"

text \<open>The body of the loop of \<open>fetchKalshiEvent\<close>: \<open>last_price\<close>, or the mid of bid and ask.\<close>

definition kalshiYesPrice :: "dflow_market \<Rightarrow> jsnum" where
  "kalshiYesPrice market =
     (if truthyNum (toNumber (last_price market)) then toNumber (last_price market)
      else js_half (js_add (toNumber (yes_bid market)) (toNumber (yes_ask market))))"

definition kalshiMarket :: "dflow_market \<Rightarrow> SimplifiedMarket option" where
  "kalshiMarket market =
     (let t = orElse (dm_title market) [];
          y = kalshiYesPrice market
      in if t \<noteq> [] then Some \<lparr>title = t, yesPrice = y\<rparr> else None)"

definition fetchKalshiEvent :: "env \<Rightarrow> string \<Rightarrow> SourceEventData option" where
  "fetchKalshiEvent env ticker =
     (case dflowEvent env ticker of
        Inl e \<Rightarrow> None
      | Inr response \<Rightarrow>
          Some \<lparr>eventTitle = orElse (de_title response) ticker,
                markets = (case de_markets response of
                             None \<Rightarrow> []
                           | Some xs \<Rightarrow> List.map_filter kalshiMarket xs),
                source = Kalshi\<rparr>)"

subsection \<open>Search\<close>

definition searchPolymarket :: "env \<Rightarrow> string \<Rightarrow> SimplifiedMarket list" where
  "searchPolymarket env query =
     (case gammaSearch env query of
        Rejected e \<Rightarrow> []
      | HttpError st \<Rightarrow> []
      | Payload evs \<Rightarrow>
          (case evs of
             None \<Rightarrow> []
           | Some xs \<Rightarrow> concat (map (\<lambda>event. polymarketMarkets env (ge_markets event)) xs)))"

text \<open>The body of the inner loop of \<open>searchKalshi\<close>.\<close>

definition searchYesPrice :: "env \<Rightarrow> search_market \<Rightarrow> jsnum" where
  "searchYesPrice env market =
     (if present (yesAsk market) \<and> present (yesBid market)
      then (let ask = parseFloat env (JStr (the (yesAsk market)));
                bid = parseFloat env (JStr (the (yesBid market)))
            in js_half (js_add ask bid))
      else if present (yesAsk market) then parseFloat env (JStr (the (yesAsk market)))
      else if present (yesBid market) then parseFloat env (JStr (the (yesBid market)))
      else Fin 50)"

definition searchMarket :: "env \<Rightarrow> search_market \<Rightarrow> SimplifiedMarket option" where
  "searchMarket env market =
     (let t = orElse (sm_title market) [];
          y = searchYesPrice env market
      in if t \<noteq> [] then Some \<lparr>title = t, yesPrice = y\<rparr> else None)"

definition searchKalshi :: "env \<Rightarrow> string \<Rightarrow> SimplifiedMarket list" where
  "searchKalshi env query =
     (case dflowSearch env query of
        Inl e \<Rightarrow> []
      | Inr response \<Rightarrow>
          (case events response of
             None \<Rightarrow> []
           | Some xs \<Rightarrow>
               concat (map (\<lambda>event. case se_markets event of
                                       None \<Rightarrow> []
                                     | Some ms \<Rightarrow> List.map_filter (searchMarket env) ms) xs)))"

subsection \<open>The two language-model steps\<close>

text \<open>
  The text fragments of a response: the contents of the items of type \<open>message\<close>, in order,
  without the fragments that have no text.
\<close>

definition messageTexts :: "outputItem list \<Rightarrow> string list" where
  "messageTexts out =
     List.map_filter fragment
       (concat (map item_content (filter (\<lambda>item. item_type item = ''message'') out)))"

text \<open>The clean-up at the end of \<open>generateSearchQuery\<close>.\<close>

definition cleanQuery :: "string \<Rightarrow> string" where
  "cleanQuery txt =
     (let cleaned = trim (removeQuotes txt);
          ws = take 2 (splitSpaces [] cleaned)
      in join '' '' ws)"

text \<open>
  \<open>generateSearchQuery\<close>: the query, or \<open>Inl\<close> the message of what the client threw, and
  the calls made.
\<close>

definition generateSearchQuery ::
  "env \<Rightarrow> string \<Rightarrow> ArbitrageMarketSource \<Rightarrow> ArbitrageMarketSource \<Rightarrow> string
     \<Rightarrow> (string + string) \<times> aiCall list" where
  "generateSearchQuery env ttl sourcePlatform targetPlatform model =
     (let (systemPrompt, userPrompt) =
            searchQueryGeneratorPrompt env ttl sourcePlatform targetPlatform
      in if isOpenAIModel model
         then (case callOpenAIResponses env userPrompt systemPrompt TextMode model 1 of
                 Inl e \<Rightarrow> (Inl e, [AICall OpenAI userPrompt systemPrompt TextMode model 1])
               | Inr response \<Rightarrow>
                   (Inr (cleanQuery (trim (join [] (messageTexts (ai_output response))))),
                    [AICall OpenAI userPrompt systemPrompt TextMode model 1]))
         else (case callGrokResponses env userPrompt systemPrompt TextMode model 1 of
                 Inl e \<Rightarrow> (Inl e, [AICall Grok userPrompt systemPrompt TextMode model 1])
               | Inr response \<Rightarrow>
                   (Inr (cleanQuery (trim (join [] (messageTexts (ai_output response))))),
                    [AICall Grok userPrompt systemPrompt TextMode model 1])))"

text \<open>\<open>sourceEvent.markets[0]?.yesPrice || 50\<close>.\<close>

definition firstYesPrice :: "SimplifiedMarket list \<Rightarrow> jsnum" where
  "firstYesPrice ms =
     (case idx ms 0 of
        None \<Rightarrow> Fin 50
      | Some m \<Rightarrow> if truthyNum (yesPrice m) then yesPrice m else Fin 50)"

text \<open>The record \<open>sourceMarket\<close> that \<open>analyzeArbitrage\<close> builds.\<close>

definition sourceMarketOf :: "SourceEventData \<Rightarrow> ArbitrageMarketData" where
  "sourceMarketOf sourceEvent =
     \<lparr>md_source = source sourceEvent,
      md_name = eventTitle sourceEvent,
      md_identifier = eventTitle sourceEvent,
      md_yesPrice = firstYesPrice (markets sourceEvent),
      md_noPrice = js_sub (Fin 100) (firstYesPrice (markets sourceEvent)),
      md_url = [],
      md_rawData = Some (eventTitle sourceEvent, markets sourceEvent)\<rparr>"

text \<open>\<open>parsed.matchedMarket || undefined\<close>.\<close>

definition matchedSlot :: "jsval \<Rightarrow> slot option" where
  "matchedSlot parsed =
     (if truthy (field parsed ''matchedMarket'') then Some (Reported (field parsed ''matchedMarket''))
      else None)"

text \<open>
  From the text of the verdict to the analysis: \<open>JSON.parse\<close>, which may throw, then the
  reads of the properties, the first of which throws when the text was \<open>null\<close>.
\<close>

definition buildAnalysis ::
  "env \<Rightarrow> SourceEventData \<Rightarrow> string \<Rightarrow> string + ArbitrageAnalysis" where
  "buildAnalysis env sourceEvent txt =
     (case JSON_parse env txt of
        Inl e \<Rightarrow> Inl e
      | Inr parsed \<Rightarrow>
          if parsed = JNull \<or> parsed = JUndefined
          then Inl (typeErrorMessage env ''isSameMarket'')
          else Inr \<lparr>isSameMarket = field parsed ''isSameMarket'',
                    sameMarketConfidence = field parsed ''sameMarketConfidence'',
                    marketComparisonReasoning = field parsed ''marketComparisonReasoning'',
                    polymarketData =
                      (if source sourceEvent = Polymarket
                       then Some (Projection (sourceMarketOf sourceEvent))
                       else matchedSlot parsed),
                    kalshiData =
                      (if source sourceEvent = Kalshi
                       then Some (Projection (sourceMarketOf sourceEvent))
                       else matchedSlot parsed),
                    arbitrage = field parsed ''arbitrage'',
                    summary = field parsed ''summary'',
                    risks = field parsed ''risks'',
                    recommendation = field parsed ''recommendation''\<rparr>)"

text \<open>
  \<open>analyzeArbitrage\<close>: the analysis with the model and the tokens the client reported, or
  \<open>Inl\<close> the message of what was thrown, and the calls made.
\<close>

definition analyzeArbitrage ::
  "env \<Rightarrow> SourceEventData \<Rightarrow> SimplifiedMarket list \<Rightarrow> ArbitrageMarketSource \<Rightarrow> string
     \<Rightarrow> (string + ArbitrageAnalysis \<times> string \<times> nat option) \<times> aiCall list" where
  "analyzeArbitrage env sourceEvent searchResults searchPlatform model =
     (let (systemPrompt, userPrompt) =
            arbitrageAnalysisPrompt env (sourceMarketOf sourceEvent) searchResults searchPlatform
      in if isOpenAIModel model
         then (case callOpenAIResponses env userPrompt systemPrompt JsonObject model 3 of
                 Inl e \<Rightarrow> (Inl e, [AICall OpenAI userPrompt systemPrompt JsonObject model 3])
               | Inr response \<Rightarrow>
                   (case buildAnalysis env sourceEvent
                           (join [CHR 0x0A] (messageTexts (ai_output response))) of
                      Inl e \<Rightarrow> Inl e
                    | Inr analysis \<Rightarrow> Inr (analysis, ai_model response, total_tokens response),
                    [AICall OpenAI userPrompt systemPrompt JsonObject model 3]))
         else (case callGrokResponses env userPrompt systemPrompt JsonObject model 3 of
                 Inl e \<Rightarrow> (Inl e, [AICall Grok userPrompt systemPrompt JsonObject model 3])
               | Inr response \<Rightarrow>
                   (case buildAnalysis env sourceEvent
                           (join [CHR 0x0A] (messageTexts (ai_output response))) of
                      Inl e \<Rightarrow> Inl e
                    | Inr analysis \<Rightarrow> Inr (analysis, ai_model response, total_tokens response),
                    [AICall Grok userPrompt systemPrompt JsonObject model 3])))"

subsection \<open>The handler\<close>

text \<open>A failure before the pipeline: a status and a message, no metadata.\<close>

definition failure :: "nat \<Rightarrow> string \<Rightarrow> response" where
  "failure st msg = Response st \<lparr>success = False, data = None, error = Some msg, meta = None\<rparr>"

text \<open>The \<open>catch\<close> of the handler: status 500 with the message of what was thrown.\<close>

definition unhandled :: "string \<Rightarrow> response" where
  "unhandled msg =
     Response 500
       \<lparr>success = False, data = None, error = Some msg,
        meta = Some \<lparr>meta_model = ''unknown'', tokensUsed = None,
                     sourceMarket = ''unknown'', searchedMarket = ''unknown''\<rparr>\<rparr>"

text \<open>
  The record of the source event in the early return; it differs from \<open>sourceMarketOf\<close>
  in \<open>source\<close>, which is the detected platform, and in \<open>url\<close>, which is the request's.
\<close>

definition earlySourceMarket ::
  "ArbitrageMarketSource \<Rightarrow> string \<Rightarrow> SourceEventData \<Rightarrow> ArbitrageMarketData" where
  "earlySourceMarket platform u sourceEvent =
     \<lparr>md_source = platform,
      md_name = eventTitle sourceEvent,
      md_identifier = eventTitle sourceEvent,
      md_yesPrice = firstYesPrice (markets sourceEvent),
      md_noPrice = js_sub (Fin 100) (firstYesPrice (markets sourceEvent)),
      md_url = u,
      md_rawData = Some (eventTitle sourceEvent, markets sourceEvent)\<rparr>"

text \<open>Step 4 of the handler: the response when the search found nothing.\<close>

definition earlyReturn ::
  "string \<Rightarrow> string \<Rightarrow> ArbitrageMarketSource \<Rightarrow> ArbitrageMarketSource \<Rightarrow> SourceEventData
     \<Rightarrow> string \<Rightarrow> response" where
  "earlyReturn u model sourcePlatform searchPlatform sourceEvent searchQuery =
     Response 200
       \<lparr>success = True,
        data = Some
          \<lparr>isSameMarket = JBool False,
           sameMarketConfidence = JNum (Fin 0),
           marketComparisonReasoning =
             JStr (''No matching markets found on '' @ sourceName searchPlatform
                   @ '' for query '' @ [CHR 0x22] @ searchQuery @ [CHR 0x22]),
           polymarketData =
             (if sourcePlatform = Polymarket
              then Some (Projection (earlySourceMarket Polymarket u sourceEvent)) else None),
           kalshiData =
             (if sourcePlatform = Kalshi
              then Some (Projection (earlySourceMarket Kalshi u sourceEvent)) else None),
           arbitrage = JObj [(''hasArbitrage'', JBool False)],
           summary =
             JStr (''No matching markets found on '' @ sourceName searchPlatform
                   @ ''. Cannot determine arbitrage opportunity.''),
           risks = JArr [JStr ''No matching market found on the other platform''],
           recommendation =
             JStr ''Try a different event or check if the market exists on both platforms.''\<rparr>,
        error = None,
        meta = Some \<lparr>meta_model = model, tokensUsed = None,
                     sourceMarket = sourceName sourcePlatform,
                     searchedMarket = sourceName searchPlatform\<rparr>\<rparr>"

text \<open>The response after a full analysis.\<close>

definition analysisResponse ::
  "ArbitrageAnalysis \<Rightarrow> string \<Rightarrow> nat option \<Rightarrow> ArbitrageMarketSource \<Rightarrow> ArbitrageMarketSource
     \<Rightarrow> response" where
  "analysisResponse analysis modelUsed tokens sourcePlatform searchPlatform =
     Response 200
       \<lparr>success = True, data = Some analysis, error = None,
        meta = Some \<lparr>meta_model = modelUsed, tokensUsed = tokens,
                     sourceMarket = sourceName sourcePlatform,
                     searchedMarket = sourceName searchPlatform\<rparr>\<rparr>"

text \<open>The message of the 404 response.\<close>

definition notFoundMessage :: "ArbitrageMarketSource \<Rightarrow> string" where
  "notFoundMessage sourcePlatform =
     ''Could not fetch event data from '' @ sourceName sourcePlatform
     @ ''. The event may not exist or have no markets.''"

text \<open>Steps 2 to 5 of the handler, from the fetched source event on.\<close>

definition pipeline ::
  "env \<Rightarrow> string \<Rightarrow> string \<Rightarrow> ArbitrageMarketSource \<Rightarrow> SourceEventData option
     \<Rightarrow> response \<times> aiCall list" where
  "pipeline env u model sourcePlatform fetched =
     (let searchPlatform = (if sourcePlatform = Polymarket then Kalshi else Polymarket)
      in case fetched of
           None \<Rightarrow> (failure 404 (notFoundMessage sourcePlatform), [])
         | Some sourceEvent \<Rightarrow>
             if length (markets sourceEvent) = 0
             then (failure 404 (notFoundMessage sourcePlatform), [])
             else
               (case generateSearchQuery env (eventTitle sourceEvent) sourcePlatform
                       searchPlatform model of
                  (Inl e, calls) \<Rightarrow> (unhandled e, calls)
                | (Inr searchQuery, calls) \<Rightarrow>
                    (let searchResults =
                           (if searchPlatform = Polymarket then searchPolymarket env searchQuery
                            else searchKalshi env searchQuery)
                     in if length searchResults = 0
                        then (earlyReturn u model sourcePlatform searchPlatform sourceEvent
                                searchQuery, calls)
                        else
                          (case analyzeArbitrage env sourceEvent searchResults searchPlatform
                                  model of
                             (Inl e, calls') \<Rightarrow> (unhandled e, calls @ calls')
                           | (Inr (analysis, modelUsed, tokens), calls') \<Rightarrow>
                               (analysisResponse analysis modelUsed tokens sourcePlatform
                                  searchPlatform, calls @ calls')))))"

text \<open>The handler: the response, and the calls to the language-model clients in order.\<close>

definition handler :: "env \<Rightarrow> request \<Rightarrow> response \<times> aiCall list" where
  "handler env req =
     (if req_method req = ''OPTIONS'' then (Preflight, [])
      else if req_method req \<noteq> ''POST'' then (failure 405 ''Method not allowed. Use POST.'', [])
      else
        (case req_body req of
           InvalidJson \<Rightarrow> (failure 400 ''Invalid JSON in request body'', [])
         | Body u model \<Rightarrow>
             if \<not> present u
             then (failure 400 (''Missing required parameter: '' @ [CHR 0x27] @ ''url''
                                @ [CHR 0x27]), [])
             else if \<not> present model
             then (failure 400 (''Missing required parameter: '' @ [CHR 0x27] @ ''model''
                                @ [CHR 0x27]), [])
             else
               (case detectPlatform (the u) of
                  None \<Rightarrow>
                    (failure 400 ''Invalid URL. Must be a Polymarket or Kalshi market URL.'', [])
                | Some Polymarket \<Rightarrow>
                    (case extractPolymarketSlug env (the u) of
                       None \<Rightarrow>
                         (failure 400 ''Could not extract event slug from Polymarket URL'', [])
                     | Some slug \<Rightarrow>
                         pipeline env (the u) (the model) Polymarket
                           (fetchPolymarketEvent env slug))
                | Some Kalshi \<Rightarrow>
                    (case extractKalshiTicker env (the u) of
                       None \<Rightarrow> (failure 400 ''Could not extract ticker from Kalshi URL'', [])
                     | Some ticker \<Rightarrow>
                         pipeline env (the u) (the model) Kalshi
                           (fetchKalshiEvent env ticker)))))"

text \<open>
  The URL resolver: the detection of the platform followed by the extraction of the
  identifier, as the handler chains them.
\<close>

datatype resolveError = UnsupportedPlatform | MalformedUrl

definition resolve :: "env \<Rightarrow> string \<Rightarrow> resolveError + ArbitrageMarketSource \<times> string" where
  "resolve env u =
     (case detectPlatform u of
        None \<Rightarrow> Inl UnsupportedPlatform
      | Some Polymarket \<Rightarrow>
          (case extractPolymarketSlug env u of
             None \<Rightarrow> Inl MalformedUrl
           | Some slug \<Rightarrow> Inr (Polymarket, slug))
      | Some Kalshi \<Rightarrow>
          (case extractKalshiTicker env u of
             None \<Rightarrow> Inl MalformedUrl
           | Some ticker \<Rightarrow> Inr (Kalshi, ticker)))"

text \<open>The output mode of a call, and the analysis a response carries, if any.\<close>

fun callMode :: "aiCall \<Rightarrow> outputMode" where
  "callMode (AICall b up sp mode model n) = mode"

fun analysisOf :: "response \<Rightarrow> ArbitrageAnalysis option" where
  "analysisOf Preflight = None"
| "analysisOf (Response st r) = data r"

subsection \<open>Words\<close>

text \<open>
  The words of a string, in the sense of the specification: its maximal runs of characters
  that are not white space. This is not a function of the file; the clean-up of the search
  query is compared with it. \<open>cur\<close> is the word being read, reversed.
\<close>

fun wordsAcc :: "string \<Rightarrow> string \<Rightarrow> string list" where
  "wordsAcc cur [] = (if cur = [] then [] else [rev cur])"
| "wordsAcc cur (c # cs) =
     (if isSpace c then (if cur = [] then wordsAcc [] cs else rev cur # wordsAcc [] cs)
      else wordsAcc (c # cur) cs)"

definition wordsOf :: "string \<Rightarrow> string list" where
  "wordsOf s = wordsAcc [] s"

subsection \<open>Sample environments\<close>

text \<open>
  An environment in which nothing answers: no URL parses, no text is JSON, every upstream
  call and every client call throws. The examples below switch on what they need.
\<close>

definition offline :: env where
  "offline =
     \<lparr>newURL = (\<lambda>u. None),
      JSON_parse = (\<lambda>s. Inl ''Unexpected token''),
      parseFloat = (\<lambda>v. NaN),
      typeErrorMessage = (\<lambda>k. ''Cannot read properties of null''),
      gammaEvent = (\<lambda>slug. Rejected ''offline''),
      gammaSearch = (\<lambda>q. Rejected ''offline''),
      dflowEvent = (\<lambda>ticker. Inl ''offline''),
      dflowSearch = (\<lambda>q. Inl ''offline''),
      callOpenAIResponses = (\<lambda>up sp m model n. Inl ''offline''),
      callGrokResponses = (\<lambda>up sp m model n. Inl ''offline''),
      searchQueryGeneratorPrompt = (\<lambda>t a b. ([], t)),
      arbitrageAnalysisPrompt = (\<lambda>d ms p. ([], md_name d))\<rparr>"

text \<open>A URL constructor that knows the pathname of the listed URLs and rejects the rest.\<close>

definition parsing :: "(string \<times> string) list \<Rightarrow> string \<Rightarrow> string option" where
  "parsing known u = map_of known u"

text \<open>
  \<open>JSON.parse\<close> on the listed texts, with a SyntaxError for the rest, and \<open>parseFloat\<close> on
  the listed strings and on a number (itself), with \<open>NaN\<close> for the rest, as for \<open>undefined\<close>,
  \<open>null\<close> and a string that does not start with a number. The examples read them on the
  listed arguments and on \<open>undefined\<close> only.
\<close>

definition parsingJson :: "(string \<times> jsval) list \<Rightarrow> string \<Rightarrow> string + jsval" where
  "parsingJson known s =
     (case map_of known s of None \<Rightarrow> Inl ''Unexpected token'' | Some v \<Rightarrow> Inr v)"

fun parsingFloat :: "(string \<times> jsnum) list \<Rightarrow> jsval \<Rightarrow> jsnum" where
  "parsingFloat known (JStr s) = (case map_of known s of None \<Rightarrow> NaN | Some x \<Rightarrow> x)"
| "parsingFloat known (JNum x) = x"
| "parsingFloat known v = NaN"

text \<open>A reply of a client: one item of type \<open>message\<close> with one fragment of text.\<close>

definition reply :: "string \<Rightarrow> string \<Rightarrow> nat \<Rightarrow> aiResponse" where
  "reply txt model n =
     \<lparr>ai_output = [\<lparr>item_type = ''message'', item_content = [\<lparr>fragment = Some txt\<rparr>]\<rparr>],
      ai_model = model, total_tokens = Some n\<rparr>"

text \<open>
  The verdict of the sample world, as text and as the value \<open>JSON.parse\<close> gives for it: the
  markets match, and the matched market is quoted at 40 for yes and 70 for no.
\<close>

definition verdictText :: string where
  "verdictText =
     ''{\"isSameMarket\":true,\"sameMarketConfidence\":90,''
     @ ''\"matchedMarket\":{\"yesPrice\":40,\"noPrice\":70},''
     @ ''\"arbitrage\":{\"hasArbitrage\":false}}''"

definition verdictValue :: jsval where
  "verdictValue =
     JObj [(''isSameMarket'', JBool True),
           (''sameMarketConfidence'', JNum (Fin 90)),
           (''matchedMarket'', JObj [(''yesPrice'', JNum (Fin 40)), (''noPrice'', JNum (Fin 70))]),
           (''arbitrage'', JObj [(''hasArbitrage'', JBool False)])]"

text \<open>
  A sample world. Polymarket has the event \<open>fed-decision\<close> with one titled market without
  prices and one market without a title; its search finds nothing. Kalshi (through DFlow)
  has the event \<open>KXFED-25DEC\<close> with one titled market without any price field, and its
  search for \<open>Fed\<close> finds one market. Both clients answer the query step with \<open>"Fed"\<close> in
  double quotes; for the verdict the OpenAI client answers with \<open>verdictText\<close> and the Grok
  client with a sentence that is not JSON.
\<close>

definition demo :: env where
  "demo =
     \<lparr>newURL = parsing
        [(''https://polymarket.com/event/fed-decision'', ''/event/fed-decision''),
         (''https://kalshi.com/markets/kxfed/fed-decision/kxfed-25dec'',
          ''/markets/kxfed/fed-decision/kxfed-25dec'')],
      JSON_parse = parsingJson [(''[]'', JArr []), (verdictText, verdictValue)],
      parseFloat = parsingFloat [(''44'', Fin 44), (''40'', Fin 40)],
      typeErrorMessage = (\<lambda>k. ''Cannot read properties of null''),
      gammaEvent = (\<lambda>slug.
        if slug = ''fed-decision''
        then Payload
          \<lparr>ge_title = Some ''Fed decision in December?'',
           ge_markets = Some
             [\<lparr>question = Some ''Will the Fed cut rates?'', gm_title = None,
               outcomePrices = None\<rparr>,
              \<lparr>question = None, gm_title = Some [], outcomePrices = None\<rparr>]\<rparr>
        else HttpError 404),
      gammaSearch = (\<lambda>q. Payload (Some [])),
      dflowEvent = (\<lambda>ticker.
        if ticker = ''KXFED-25DEC''
        then Inr
          \<lparr>de_title = Some ''Fed decision'',
           de_markets = Some
             [\<lparr>dm_title = Some ''Fed cuts in December'', last_price = None,
               yes_bid = None, yes_ask = None\<rparr>]\<rparr>
        else Inl ''Not found''),
      dflowSearch = (\<lambda>q.
        if q = ''Fed''
        then Inr
          \<lparr>events = Some
             [\<lparr>se_markets = Some
                 [\<lparr>sm_title = Some ''Fed cuts in December'', yesAsk = Some ''44'',
                   yesBid = None\<rparr>]\<rparr>]\<rparr>
        else Inr \<lparr>events = Some []\<rparr>),
      callOpenAIResponses = (\<lambda>up sp mode model n.
        case mode of
          TextMode \<Rightarrow> Inr (reply ''\"Fed\"'' model 12)
        | JsonObject \<Rightarrow> Inr (reply verdictText model 321)),
      callGrokResponses = (\<lambda>up sp mode model n.
        case mode of
          TextMode \<Rightarrow> Inr (reply ''\"Fed\"'' model 12)
        | JsonObject \<Rightarrow> Inr (reply ''These two markets look the same.'' model 321)),
      searchQueryGeneratorPrompt = (\<lambda>t a b. (''Answer with one or two words.'', t)),
      arbitrageAnalysisPrompt =
        (\<lambda>d ms p. (''Answer with a JSON object.'', ''Compare the markets.''))\<rparr>"

text \<open>A \<open>POST\<close> request with both fields.\<close>

definition post :: "string \<Rightarrow> string \<Rightarrow> request" where
  "post u model = \<lparr>req_method = ''POST'', req_body = Body (Some u) (Some model)\<rparr>"

text \<open>
  The sample world with a price on Polymarket: the market of the event \<open>fed-decision\<close> is
  quoted at 0.25 for yes, and \<open>parseFloat\<close> reads \<open>0.25\<close> as a quarter.
\<close>

definition priced :: env where
  "priced =
     demo
       \<lparr>gammaEvent := (\<lambda>slug.
          if slug = ''fed-decision''
          then Payload
            \<lparr>ge_title = Some ''Fed decision in December?'',
             ge_markets = Some
               [\<lparr>question = Some ''Will the Fed cut rates?'', gm_title = None,
                 outcomePrices = Some ''[\"0.25\", \"0.75\"]''\<rparr>]\<rparr>
          else HttpError 404),
        JSON_parse := parsingJson
          [(''[\"0.25\", \"0.75\"]'', JArr [JStr ''0.25'', JStr ''0.75'']),
           (verdictText, verdictValue)],
        parseFloat := parsingFloat [(''0.25'', Fin (1 / 4)), (''44'', Fin 44)]\<rparr>"

section \<open>Properties\<close>

subsection \<open>URL resolver\<close>

lemma nth_Cons_length: "2 \<le> length rest \<Longrightarrow> (b # rest) ! length rest = last rest"
  using last_conv_nth [of "b # rest"] by (cases rest) simp_all

text \<open>
  C4, as the code has it: a Kalshi URL gives a ticker exactly when its path has at least two
  segments and the first is \<open>markets\<close> or \<open>events\<close>. With four segments or more the ticker is
  the last segment in upper case; with two or three segments it is the second segment in
  upper case. A URL that does not parse, a path of fewer than two segments and a path under
  another first segment give no ticker.
\<close>

theorem kalshi_ticker_by_shape:
  "extractKalshiTicker env u =
     (case newURL env u of
        None \<Rightarrow> None
      | Some pathname \<Rightarrow>
          (case pathParts pathname of
             a # b # rest \<Rightarrow>
               if a = ''markets'' \<or> a = ''events''
               then Some (toUpperCase (if 2 \<le> length rest then last rest else b))
               else None
           | _ \<Rightarrow> None))"
  by (auto simp: extractKalshiTicker_def idx_def Let_def nth_Cons_length
           split: option.splits list.splits)

text \<open>
  C4, examples of the three shapes: four segments, two segments, and one segment.
\<close>

theorem kalshi_ticker_by_shape_witness:
  "extractKalshiTicker
     (offline\<lparr>newURL := parsing [(''https://kalshi.com/markets/kxfed/fed-decision/kxfed-25dec'',
                                    ''/markets/kxfed/fed-decision/kxfed-25dec'')]\<rparr>)
     ''https://kalshi.com/markets/kxfed/fed-decision/kxfed-25dec'' = Some ''KXFED-25DEC''
   \<and> extractKalshiTicker
       (offline\<lparr>newURL := parsing [(''https://kalshi.com/events/kxfed'', ''/events/kxfed'')]\<rparr>)
       ''https://kalshi.com/events/kxfed'' = Some ''KXFED''
   \<and> extractKalshiTicker
       (offline\<lparr>newURL := parsing [(''https://kalshi.com/browse'', ''/browse'')]\<rparr>)
       ''https://kalshi.com/browse'' = None"
  unfolding kalshi_ticker_by_shape
  by code_simp

text \<open>
  C4 as stated fails: the path \<open>/markets/kxfed/fed-decision\<close> has three segments, and the
  URL is not rejected; its ticker is the second segment in upper case.
\<close>

theorem kalshi_three_segments_accepted:
  "pathParts ''/markets/kxfed/fed-decision'' = [''markets'', ''kxfed'', ''fed-decision'']
   \<and> extractKalshiTicker
       (offline\<lparr>newURL := parsing [(''https://kalshi.com/markets/kxfed/fed-decision'',
                                      ''/markets/kxfed/fed-decision'')]\<rparr>)
       ''https://kalshi.com/markets/kxfed/fed-decision'' = Some ''KXFED''"
  by code_simp

text \<open>
  C6: for a URL of Polymarket, a path \<open>/event/{slug}\<close>, with or without further segments,
  resolves to Polymarket and the slug; a URL that does not parse, and a path in which no
  segment \<open>event\<close> is followed by another segment, resolve to the error \<open>MalformedUrl\<close>,
  a value of the result type.
\<close>

theorem polymarket_resolve:
  assumes "detectPlatform u = Some Polymarket"
  shows "(newURL env u = Some pathname \<and> pathParts pathname = ''event'' # slug # rest
            \<longrightarrow> resolve env u = Inr (Polymarket, slug))
       \<and> (newURL env u = None \<longrightarrow> resolve env u = Inl MalformedUrl)
       \<and> (newURL env u = Some pathname \<and> ''event'' \<notin> set (butlast (pathParts pathname))
            \<longrightarrow> resolve env u = Inl MalformedUrl)"
proof -
  have r: "resolve env u =
             (case extractPolymarketSlug env u of
                None \<Rightarrow> Inl MalformedUrl | Some s \<Rightarrow> Inr (Polymarket, s))"
    using assms by (simp add: resolve_def)
  have a: "resolve env u = Inr (Polymarket, slug)"
    if "newURL env u = Some pathname" "pathParts pathname = ''event'' # slug # rest"
    using that by (simp add: r extractPolymarketSlug_def idx_def)
  have b: "resolve env u = Inl MalformedUrl" if "newURL env u = None"
    using that by (simp add: r extractPolymarketSlug_def)
  have c: "resolve env u = Inl MalformedUrl"
    if "newURL env u = Some pathname" "''event'' \<notin> set (butlast (pathParts pathname))"
  proof (cases "pathParts pathname")
    case Nil
    then show ?thesis using that by (simp add: r extractPolymarketSlug_def idx_def)
  next
    case (Cons p ps)
    then show ?thesis using that
      by (cases ps) (auto simp: r extractPolymarketSlug_def idx_def Let_def)
  qed
  show ?thesis using a b c by blast
qed

text \<open>
  C6, examples: an event URL with a market segment after the slug; a string without a
  scheme, which the URL constructor rejects; and a Polymarket URL whose path has no \<open>event\<close>
  segment.
\<close>

theorem polymarket_resolve_witness:
  "resolve
     (offline\<lparr>newURL := parsing [(''https://polymarket.com/event/fed-decision/will-the-fed-cut'',
                                    ''/event/fed-decision/will-the-fed-cut'')]\<rparr>)
     ''https://polymarket.com/event/fed-decision/will-the-fed-cut''
     = Inr (Polymarket, ''fed-decision'')
   \<and> resolve offline ''polymarket.com/event/fed-decision'' = Inl MalformedUrl
   \<and> resolve
       (offline\<lparr>newURL := parsing [(''https://polymarket.com/markets'', ''/markets'')]\<rparr>)
       ''https://polymarket.com/markets''
       = Inl MalformedUrl"
proof -
  let ?u = "''https://polymarket.com/event/fed-decision/will-the-fed-cut''"
  let ?e = "offline\<lparr>newURL := parsing [(?u, ''/event/fed-decision/will-the-fed-cut'')]\<rparr>"
  let ?v = "''polymarket.com/event/fed-decision''"
  let ?w = "''https://polymarket.com/markets''"
  let ?f = "offline\<lparr>newURL := parsing [(?w, ''/markets'')]\<rparr>"
  have hu: "detectPlatform ?u = Some Polymarket" by code_simp
  have hv: "detectPlatform ?v = Some Polymarket" by code_simp
  have hw: "detectPlatform ?w = Some Polymarket" by code_simp
  have p: "newURL ?e ?u = Some ''/event/fed-decision/will-the-fed-cut''
           \<and> pathParts ''/event/fed-decision/will-the-fed-cut''
               = ''event'' # ''fed-decision'' # [''will-the-fed-cut'']"
    by code_simp
  have n: "newURL offline ?v = None" by code_simp
  have m: "newURL ?f ?w = Some ''/markets''
           \<and> ''event'' \<notin> set (butlast (pathParts ''/markets''))"
    by code_simp
  show ?thesis
    using p n m
      polymarket_resolve [OF hu, of ?e "''/event/fed-decision/will-the-fed-cut''"
        "''fed-decision''" "[''will-the-fed-cut'']"]
      polymarket_resolve [OF hv, of offline]
      polymarket_resolve [OF hw, of ?f "''/markets''"]
    by blast
qed

subsection \<open>Model routing\<close>

text \<open>
  C5: both language-model steps make one call, to the OpenAI client when the model is in
  \<open>OPENAI_MODELS\<close> or starts with \<open>gpt-\<close> and to the Grok client otherwise, and read the
  reply of that client only.
\<close>

theorem model_routing:
  "generateSearchQuery env t a b m =
     (let (systemPrompt, userPrompt) = searchQueryGeneratorPrompt env t a b;
          chosen = (if m \<in> set OPENAI_MODELS \<or> prefix ''gpt-'' m then OpenAI else Grok);
          client = (if chosen = OpenAI then callOpenAIResponses env else callGrokResponses env)
      in (case client userPrompt systemPrompt TextMode m 1 of
            Inl e \<Rightarrow> Inl e
          | Inr r \<Rightarrow> Inr (cleanQuery (trim (join [] (messageTexts (ai_output r))))),
          [AICall chosen userPrompt systemPrompt TextMode m 1]))
   \<and> analyzeArbitrage env ev rs sp m =
     (let (systemPrompt, userPrompt) = arbitrageAnalysisPrompt env (sourceMarketOf ev) rs sp;
          chosen = (if m \<in> set OPENAI_MODELS \<or> prefix ''gpt-'' m then OpenAI else Grok);
          client = (if chosen = OpenAI then callOpenAIResponses env else callGrokResponses env)
      in (case client userPrompt systemPrompt JsonObject m 3 of
            Inl e \<Rightarrow> Inl e
          | Inr r \<Rightarrow>
              (case buildAnalysis env ev (join [CHR 0x0A] (messageTexts (ai_output r))) of
                 Inl e \<Rightarrow> Inl e
               | Inr analysis \<Rightarrow> Inr (analysis, ai_model r, total_tokens r)),
          [AICall chosen userPrompt systemPrompt JsonObject m 3]))"
  by (simp add: generateSearchQuery_def analyzeArbitrage_def isOpenAIModel_def Let_def
           split: prod.splits sum.splits)

text \<open>
  C5, examples: \<open>gpt-4.1\<close> is in the list, \<open>gpt-oss\<close> has the prefix only, \<open>grok-4\<close> has
  neither.
\<close>

theorem model_routing_witness:
  "snd (generateSearchQuery offline ''Fed decision'' Polymarket Kalshi ''gpt-4.1'')
     = [AICall OpenAI ''Fed decision'' [] TextMode ''gpt-4.1'' 1]
   \<and> snd (generateSearchQuery offline ''Fed decision'' Polymarket Kalshi ''gpt-oss'')
     = [AICall OpenAI ''Fed decision'' [] TextMode ''gpt-oss'' 1]
   \<and> snd (generateSearchQuery offline ''Fed decision'' Polymarket Kalshi ''grok-4'')
     = [AICall Grok ''Fed decision'' [] TextMode ''grok-4'' 1]"
  unfolding conjunct1 [OF model_routing]
  by code_simp

subsection \<open>Search query\<close>

lemma wordsAcc_dropWhile: "wordsAcc [] (dropWhile isSpace s) = wordsAcc [] s"
  by (induction s) simp_all

lemma wordsAcc_append_spaces:
  "\<forall>c \<in> set t. isSpace c \<Longrightarrow> wordsAcc cur (s @ t) = wordsAcc cur s"
proof (induction s arbitrary: cur)
  case Nil
  then show ?case
  proof (induction t arbitrary: cur)
    case Nil
    then show ?case by simp
  next
    case (Cons a t)
    have "wordsAcc [] t = []" using Cons.IH [of "[]"] Cons.prems by simp
    then show ?case using Cons.prems by simp
  qed
next
  case (Cons a s)
  then show ?case by simp
qed

lemma split_trailing: "rev (dropWhile P (rev s)) @ rev (takeWhile P (rev s)) = s"
proof -
  have "rev (takeWhile P (rev s) @ dropWhile P (rev s)) = s" by simp
  then show ?thesis by (simp only: rev_append)
qed

lemma wordsAcc_trim: "wordsAcc [] (trim s) = wordsAcc [] s"
proof -
  let ?t = "dropWhile isSpace s"
  have "wordsAcc [] (rev (dropWhile isSpace (rev ?t)) @ rev (takeWhile isSpace (rev ?t)))
          = wordsAcc [] (rev (dropWhile isSpace (rev ?t)))"
    by (rule wordsAcc_append_spaces) (auto dest: set_takeWhileD)
  then have "wordsAcc [] (trim s) = wordsAcc [] ?t"
    by (simp only: split_trailing trim_def)
  then show ?thesis by (simp add: wordsAcc_dropWhile)
qed

lemma filter_splitSpaces: "filter (\<lambda>w. w \<noteq> []) (splitSpaces cur s) = wordsAcc cur s"
  by (induction cur s rule: splitSpaces.induct) (simp_all add: wordsAcc_dropWhile)

lemma splitSpaces_nonempty:
  "cur \<noteq> [] \<or> (s \<noteq> [] \<and> \<not> isSpace (hd s)) \<Longrightarrow> (s \<noteq> [] \<longrightarrow> \<not> isSpace (last s))
     \<Longrightarrow> [] \<notin> set (splitSpaces cur s)"
proof (induction cur s rule: splitSpaces.induct)
  case (1 cur)
  then show ?case by simp
next
  case (2 cur c cs)
  show ?case
  proof (cases "isSpace c")
    case True
    then have cur: "cur \<noteq> []" using "2.prems" by simp
    have cs: "cs \<noteq> []" "\<not> isSpace (last cs)" using True "2.prems" by (auto split: if_splits)
    let ?d = "dropWhile isSpace cs"
    have d: "?d \<noteq> []"
    proof
      assume "?d = []"
      then have "\<forall>x \<in> set cs. isSpace x" by (simp add: dropWhile_eq_Nil_conv)
      then show False using cs by (meson last_in_set)
    qed
    have hd: "\<not> isSpace (hd ?d)" using d by (rule hd_dropWhile)
    have "last ?d = last cs" using d by (metis last_appendR takeWhile_dropWhile_id)
    then have "[] \<notin> set (splitSpaces [] ?d)"
      using "2.IH"(1) [OF True] d hd cs by simp
    then show ?thesis using True cur by simp
  next
    case False
    have "cs \<noteq> [] \<longrightarrow> \<not> isSpace (last cs)" using "2.prems" by (auto split: if_splits)
    then have "[] \<notin> set (splitSpaces (c # cur) cs)" using "2.IH"(2) [OF False] by simp
    then show ?thesis using False by simp
  qed
qed

lemma trim_ends:
  assumes "trim s \<noteq> []"
  shows "\<not> isSpace (hd (trim s))" "\<not> isSpace (last (trim s))"
proof -
  let ?t = "dropWhile isSpace s"
  let ?r = "dropWhile isSpace (rev ?t)"
  have r: "?r \<noteq> []" using assms by (simp add: trim_def)
  have t: "?t \<noteq> []"
  proof
    assume e: "?t = []"
    have "dropWhile isSpace (rev ?t) = []" by (simp only: e rev.simps dropWhile.simps)
    then show False using r by blast
  qed
  have "\<not> isSpace (hd ?r)" using r by (rule hd_dropWhile)
  then show "\<not> isSpace (last (trim s))" using r by (simp add: trim_def last_rev)
  have "\<not> isSpace (hd ?t)" using t by (rule hd_dropWhile)
  moreover have "last ?r = last (rev ?t)" using r by (metis last_appendR takeWhile_dropWhile_id)
  ultimately show "\<not> isSpace (hd (trim s))" using r t by (simp add: trim_def hd_rev last_rev)
qed

lemma splitSpaces_trim:
  "splitSpaces [] (trim s) = (if trim s = [] then [[]] else wordsAcc [] s)"
proof (cases "trim s = []")
  case True
  then show ?thesis by simp
next
  case False
  have "[] \<notin> set (splitSpaces [] (trim s))"
    using False trim_ends [OF False] by (intro splitSpaces_nonempty) simp_all
  then have "filter (\<lambda>w. w \<noteq> []) (splitSpaces [] (trim s)) = splitSpaces [] (trim s)"
    by (simp add: filter_id_conv) metis
  then show ?thesis using False by (simp add: filter_splitSpaces wordsAcc_trim)
qed

lemma wordsAcc_Nil_trim: "trim s = [] \<Longrightarrow> wordsAcc [] s = []"
  using wordsAcc_trim [of s] by simp

lemma cleanQuery_words: "cleanQuery txt = join '' '' (take 2 (wordsOf (removeQuotes txt)))"
  by (simp add: cleanQuery_def Let_def splitSpaces_trim wordsOf_def wordsAcc_Nil_trim)

lemma wordsAcc_chars: "set (concat (wordsAcc cur s)) \<subseteq> set cur \<union> set s"
  by (induction cur s rule: wordsAcc.induct) auto

lemma join_chars: "set (join sep ws) \<subseteq> set sep \<union> set (concat ws)"
  by (induction sep ws rule: join.induct) auto

lemma wordsAcc_plain:
  "\<forall>c \<in> set w. \<not> isSpace c
     \<Longrightarrow> wordsAcc cur w = (if cur = [] \<and> w = [] then [] else [rev cur @ w])"
  by (induction w arbitrary: cur) auto

lemma wordsAcc_then_space:
  "\<forall>c \<in> set w. \<not> isSpace c \<Longrightarrow> isSpace sp
     \<Longrightarrow> wordsAcc cur (w @ sp # s)
           = (if cur = [] \<and> w = [] then wordsAcc [] s else (rev cur @ w) # wordsAcc [] s)"
  by (induction w arbitrary: cur) auto

lemma wordsAcc_words:
  "\<forall>c \<in> set cur. \<not> isSpace c
     \<Longrightarrow> \<forall>w \<in> set (wordsAcc cur s). w \<noteq> [] \<and> (\<forall>c \<in> set w. \<not> isSpace c)"
proof (induction s arbitrary: cur)
  case Nil
  then show ?case by simp
next
  case (Cons a s)
  show ?case
  proof (cases "isSpace a")
    case True
    have "\<forall>w \<in> set (wordsAcc [] s). w \<noteq> [] \<and> (\<forall>c \<in> set w. \<not> isSpace c)"
      using Cons.IH [of "[]"] by simp
    then show ?thesis using True Cons.prems by simp
  next
    case False
    have "\<forall>w \<in> set (wordsAcc (a # cur) s). w \<noteq> [] \<and> (\<forall>c \<in> set w. \<not> isSpace c)"
      using Cons.IH [of "a # cur"] False Cons.prems by simp
    then show ?thesis using False by simp
  qed
qed

lemma isSpace_space: "isSpace CHR '' ''"
  by (simp add: isSpace_def code_def)

lemma wordsOf_join_take2:
  assumes "\<forall>w \<in> set ws. w \<noteq> [] \<and> (\<forall>c \<in> set w. \<not> isSpace c)"
  shows "wordsOf (join '' '' (take 2 ws)) = take 2 ws"
proof (cases ws)
  case Nil
  then show ?thesis by (simp add: wordsOf_def)
next
  case (Cons a rest)
  note a = this
  show ?thesis
  proof (cases rest)
    case Nil
    then show ?thesis using a assms by (simp add: wordsOf_def wordsAcc_plain)
  next
    case (Cons b rest')
    then show ?thesis using a assms isSpace_space
      by (simp add: wordsOf_def wordsAcc_then_space wordsAcc_plain)
  qed
qed

lemma not_isQuote_space: "\<not> isQuote CHR '' ''"
  by (simp add: isQuote_def code_def)

text \<open>
  C8: the clean-up of \<open>generateSearchQuery\<close> (quotes removed, trimmed, split at white space,
  at most two pieces kept, joined with one space) yields the first two words of the text
  without its quotes, joined with one space; so the query has at most two words, and no
  apostrophe and no double quote.
\<close>

theorem search_query_is_first_two_words:
  "cleanQuery txt = join '' '' (take 2 (wordsOf (removeQuotes txt)))
   \<and> wordsOf (cleanQuery txt) = take 2 (wordsOf (removeQuotes txt))
   \<and> length (wordsOf (cleanQuery txt)) \<le> 2
   \<and> filter isQuote (cleanQuery txt) = []"
proof -
  let ?ws = "wordsOf (removeQuotes txt)"
  have c: "cleanQuery txt = join '' '' (take 2 ?ws)" by (rule cleanQuery_words)
  have "\<forall>w \<in> set ?ws. w \<noteq> [] \<and> (\<forall>c \<in> set w. \<not> isSpace c)"
    using wordsAcc_words [of "[]" "removeQuotes txt"] by (simp add: wordsOf_def)
  then have w: "wordsOf (cleanQuery txt) = take 2 ?ws"
    unfolding c by (rule wordsOf_join_take2)
  have "set (cleanQuery txt) \<subseteq> set '' '' \<union> set (concat (take 2 ?ws))"
    unfolding c by (rule join_chars)
  also have "\<dots> \<subseteq> set '' '' \<union> set (concat ?ws)"
    using set_take_subset [of 2 ?ws] by auto
  also have "\<dots> \<subseteq> set '' '' \<union> set (removeQuotes txt)"
    using wordsAcc_chars [of "[]" "removeQuotes txt"] by (auto simp: wordsOf_def)
  finally have "\<forall>x \<in> set (cleanQuery txt). \<not> isQuote x"
    using not_isQuote_space by (auto simp: removeQuotes_def)
  then have q: "filter isQuote (cleanQuery txt) = []" by (simp add: filter_empty_conv)
  show ?thesis using c w q by simp
qed

text \<open>
  C8, an example: a completion in double quotes, with runs of blanks and three words.
\<close>

theorem search_query_is_first_two_words_witness:
  "cleanQuery '' \"Fed  rate\" cut '' = ''Fed rate''
   \<and> wordsOf (cleanQuery '' \"Fed  rate\" cut '') = [''Fed'', ''rate'']"
proof -
  have e: "join '' '' (take 2 (wordsOf (removeQuotes '' \"Fed  rate\" cut ''))) = ''Fed rate''
           \<and> take 2 (wordsOf (removeQuotes '' \"Fed  rate\" cut '')) = [''Fed'', ''rate'']"
    by code_simp
  note t = search_query_is_first_two_words [of "'' \"Fed  rate\" cut ''"]
  have q: "cleanQuery '' \"Fed  rate\" cut '' = ''Fed rate''"
    by (rule trans [OF conjunct1 [OF t] conjunct1 [OF e]])
  have w: "wordsOf (cleanQuery '' \"Fed  rate\" cut '') = [''Fed'', ''rate'']"
    by (rule trans [OF conjunct1 [OF conjunct2 [OF t]] conjunct2 [OF e]])
  show ?thesis using q w by (rule conjI)
qed

subsection \<open>Rounding\<close>

lemma pow2_powi: "0 \<le> k \<Longrightarrow> (2::rat) ^ nat k = 2 powi k"
  by (simp add: power_int_def)

lemma pos_quotient:
  assumes "0 < (a::rat)"
  shows "0 < fst (quotient_of a)" "0 < snd (quotient_of a)"
        "a = of_int (fst (quotient_of a)) / of_int (snd (quotient_of a))"
proof -
  obtain n d where nd: "quotient_of a = (n, d)" by (cases "quotient_of a")
  have d: "0 < d" using nd by (rule quotient_of_denom_pos)
  have a: "a = of_int n / of_int d" using nd by (rule quotient_of_div)
  have n: "0 < n" using assms a d by (simp add: zero_less_divide_iff)
  show "0 < fst (quotient_of a)" "0 < snd (quotient_of a)"
        "a = of_int (fst (quotient_of a)) / of_int (snd (quotient_of a))"
    using nd d a n by simp_all
qed

lemma bitlen_powi:
  assumes "0 < (x::int)"
  shows "2 powi (bitlen x - 1) \<le> (of_int x :: rat)" "(of_int x :: rat) < 2 powi (bitlen x)"
proof -
  have b: "2 ^ nat (bitlen x - 1) \<le> x" "x < 2 ^ nat (bitlen x)"
    using bitlen_bounds [OF assms] by simp_all
  have ge1: "1 \<le> bitlen x" using assms by (auto simp: bitlen_alt_def)
  have "(of_int ((2::int) ^ nat (bitlen x - 1)) :: rat) \<le> of_int x"
    using b(1) of_int_le_iff by blast
  then have "(2::rat) ^ nat (bitlen x - 1) \<le> of_int x" by simp
  then show "2 powi (bitlen x - 1) \<le> (of_int x :: rat)"
    using ge1 pow2_powi [of "bitlen x - 1"] by simp
  have "(of_int x :: rat) < of_int ((2::int) ^ nat (bitlen x))"
    using b(2) of_int_less_iff by blast
  then have "(of_int x :: rat) < 2 ^ nat (bitlen x)" by simp
  then show "(of_int x :: rat) < 2 powi (bitlen x)"
    using ge1 pow2_powi [of "bitlen x"] by simp
qed

lemma ilog2_bounds:
  assumes "q \<noteq> 0"
  shows "2 powi (ilog2 q) \<le> \<bar>q\<bar> \<and> \<bar>q\<bar> < 2 powi (ilog2 q + 1)"
proof -
  define a where "a = \<bar>q\<bar>"
  define n where "n = fst (quotient_of a)"
  define d where "d = snd (quotient_of a)"
  define k where "k = bitlen n - bitlen d"
  have apos: "0 < a" using assms by (simp add: a_def)
  have n: "0 < n" and d: "0 < d" and a: "a = of_int n / of_int d"
    using pos_quotient [OF apos] by (simp_all add: n_def d_def)
  have dq: "(0::rat) < of_int d" using d by simp
  have up: "a < 2 powi (k + 1)"
  proof -
    have "of_int n < (2::rat) powi (bitlen n)" using bitlen_powi(2) [OF n] .
    also have "\<dots> = 2 powi (k + 1) * 2 powi (bitlen d - 1)"
      by (simp add: k_def power_int_add [symmetric])
    also have "\<dots> \<le> 2 powi (k + 1) * of_int d"
      using bitlen_powi(1) [OF d] by (simp add: mult_left_mono)
    finally show ?thesis using dq by (simp add: a pos_divide_less_eq)
  qed
  have lo: "2 powi (k - 1) \<le> a"
  proof -
    have "2 powi (k - 1) * of_int d \<le> (2::rat) powi (k - 1) * 2 powi (bitlen d)"
      using bitlen_powi(2) [OF d] by (simp add: mult_left_mono)
    also have "\<dots> = 2 powi (bitlen n - 1)"
      by (simp add: k_def power_int_add [symmetric])
    also have "\<dots> \<le> of_int n" using bitlen_powi(1) [OF n] .
    finally show ?thesis using dq by (simp add: a pos_le_divide_eq)
  qed
  have il: "ilog2 q = (if 2 powi k \<le> a then k else k - 1)"
    by (simp add: ilog2_def Let_def k_def n_def d_def a_def)
  show ?thesis
  proof (cases "2 powi k \<le> a")
    case True
    then show ?thesis using up il by (simp add: a_def)
  next
    case False
    then show ?thesis using lo il by (simp add: a_def)
  qed
qed

lemma roundHalfEven_err: "\<bar>of_int (roundHalfEven x) - x\<bar> \<le> 1 / 2"
proof -
  have "of_int \<lfloor>x\<rfloor> \<le> x" "x < of_int \<lfloor>x\<rfloor> + 1" by linarith+
  then show ?thesis
    by (auto simp: roundHalfEven_def Let_def abs_le_iff)
qed

lemma roundHalfEven_even:
  assumes "even k" "\<bar>x - of_int k\<bar> \<le> 1 / 2"
  shows "roundHalfEven x = k"
proof -
  have b: "of_int k - 1 / 2 \<le> x" "x \<le> of_int k + 1 / 2" using assms(2) by linarith+
  have "\<lfloor>x\<rfloor> = k \<or> \<lfloor>x\<rfloor> = k - 1"
  proof -
    have "k - 1 \<le> \<lfloor>x\<rfloor>" using b(1) by (simp add: le_floor_iff)
    moreover have "\<lfloor>x\<rfloor> \<le> k" using b(2) by (simp add: floor_le_iff)
    ultimately show ?thesis by linarith
  qed
  then show ?thesis
  proof
    assume f: "\<lfloor>x\<rfloor> = k"
    then show ?thesis using b assms(1) by (simp add: roundHalfEven_def Let_def)
  next
    assume f: "\<lfloor>x\<rfloor> = k - 1"
    have "odd (k - 1)" using assms(1) by simp
    then show ?thesis using b f by (simp add: roundHalfEven_def Let_def)
  qed
qed

lemma powi_less_imp:
  assumes "(2::rat) powi i \<le> a" "a < 2 powi j"
  shows "i < j"
proof (rule ccontr)
  assume "\<not> i < j"
  then have "j \<le> i" by simp
  then have "(2::rat) powi j \<le> 2 powi i" by (rule power_int_increasing) simp
  then show False using assms by linarith
qed

lemma ilog2_upper: "q \<noteq> 0 \<Longrightarrow> \<bar>q\<bar> < 2 powi j \<Longrightarrow> ilog2 q < j"
  using ilog2_bounds [of q] powi_less_imp by blast

lemma ilog2_eq: "2 powi j \<le> \<bar>q\<bar> \<Longrightarrow> \<bar>q\<bar> < 2 powi (j + 1) \<Longrightarrow> ilog2 q = j"
proof -
  assume a: "2 powi j \<le> \<bar>q\<bar>" "\<bar>q\<bar> < 2 powi (j + 1)"
  have "(0::rat) < 2 powi j" by simp
  then have "0 < \<bar>q\<bar>" using a(1) by linarith
  then have q: "q \<noteq> 0" by simp
  have "ilog2 q < j + 1" using ilog2_upper [OF q a(2)] .
  moreover have "j < ilog2 q + 1" using powi_less_imp [OF a(1)] ilog2_bounds [OF q] by blast
  ultimately show ?thesis by simp
qed

lemma roundDouble_small:
  assumes "\<bar>x\<bar> \<le> 100"
  shows "\<exists>r. roundDouble x = Fin r \<and> \<bar>r - x\<bar> \<le> 1 / 2 ^ 47"
proof (cases "x = 0")
  case True
  then show ?thesis by (simp add: roundDouble_def)
next
  case False
  define e where "e = max (ilog2 x - 52) (- 1074)"
  define u where "u = (2::rat) powi e"
  define r where "r = of_int (roundHalfEven (x / u)) * u"
  have "\<bar>x\<bar> < 2 powi 7" using assms by simp
  then have "ilog2 x < 7" using ilog2_upper [OF False] by blast
  then have e: "e \<le> - 46" by (simp add: e_def)
  have upos: "0 < u" by (simp add: u_def)
  have "u \<le> 2 powi (- 46)" unfolding u_def using e by (rule power_int_increasing) simp
  then have ule: "u \<le> 1 / 2 ^ 46" by (simp add: power_int_minus divide_simps)
  have "r - x = (of_int (roundHalfEven (x / u)) - x / u) * u"
    using upos by (simp add: r_def algebra_simps)
  then have "\<bar>r - x\<bar> = \<bar>of_int (roundHalfEven (x / u)) - x / u\<bar> * u"
    using upos by (simp add: abs_mult)
  also have "\<dots> \<le> (1 / 2) * u"
    using roundHalfEven_err [of "x / u"] upos by (simp add: mult_right_mono)
  also have "\<dots> \<le> 1 / 2 ^ 47" using ule by simp
  finally have err: "\<bar>r - x\<bar> \<le> 1 / 2 ^ 47" .
  have "\<bar>r\<bar> \<le> \<bar>x\<bar> + \<bar>r - x\<bar>" by simp
  also have "\<dots> \<le> 100 + 1 / 2 ^ 47" using assms err by simp
  also have "\<dots> < 2 ^ 1024" by simp
  finally have "\<not> 2 ^ 1024 \<le> \<bar>r\<bar>" by simp
  then have "roundDouble x = Fin r"
    using False by (simp add: roundDouble_def Let_def r_def u_def e_def)
  then show ?thesis using err by blast
qed

lemma roundDouble_near_100:
  assumes "\<bar>x - 100\<bar> \<le> 1 / 2 ^ 47"
  shows "roundDouble x = Fin 100"
proof -
  have b: "100 - 1 / 2 ^ 47 \<le> x" "x \<le> 100 + 1 / 2 ^ 47" using assms by linarith+
  have x0: "x \<noteq> 0" using b(1) by auto
  have xp: "\<bar>x\<bar> = x" using b(1) by simp
  have "2 powi 6 \<le> \<bar>x\<bar>" "\<bar>x\<bar> < 2 powi (6 + 1)" using b xp by simp_all
  then have il: "ilog2 x = 6" by (rule ilog2_eq)
  have u: "(2::rat) powi (max (ilog2 x - 52) (- 1074)) = 1 / 2 ^ 46"
    by (simp add: il power_int_minus divide_simps)
  have "x * 2 ^ 46 - of_int (100 * 2 ^ 46) = (x - 100) * 2 ^ 46"
    by (simp add: algebra_simps)
  then have "\<bar>x * 2 ^ 46 - of_int (100 * 2 ^ 46)\<bar> = \<bar>x - 100\<bar> * 2 ^ 46"
    by (simp only: abs_mult) simp
  also have "\<dots> \<le> 1 / 2 ^ 47 * 2 ^ 46"
    using assms by (simp only: mult_right_mono zero_le_numeral zero_le_power)
  finally have near: "\<bar>x * 2 ^ 46 - of_int (100 * 2 ^ 46)\<bar> \<le> 1 / 2" by simp
  have "roundHalfEven (x * 2 ^ 46) = 100 * 2 ^ 46"
    by (rule roundHalfEven_even [OF _ near]) simp
  then show ?thesis using x0 by (simp add: roundDouble_def Let_def u)
qed

lemma yes_plus_no:
  assumes "0 \<le> p" "p \<le> 100"
  shows "js_add (Fin p) (js_sub (Fin 100) (Fin p)) = Fin 100"
proof -
  have "\<bar>100 - p\<bar> \<le> 100" using assms by simp
  then obtain r where r: "roundDouble (100 - p) = Fin r" "\<bar>r - (100 - p)\<bar> \<le> 1 / 2 ^ 47"
    using roundDouble_small by blast
  have "\<bar>(p + r) - 100\<bar> \<le> 1 / 2 ^ 47" using r(2) by (simp add: algebra_simps)
  then have "roundDouble (p + r) = Fin 100" by (rule roundDouble_near_100)
  then show ?thesis using r(1) by (simp add: js_sub_def)
qed

lemma roundDouble_exact:
  assumes "2 powi j \<le> \<bar>x\<bar>" "\<bar>x\<bar> < 2 powi (j + 1)" "- 1022 \<le> j" "j < 1024"
    and "x = of_int k * 2 powi (j - 52)"
  shows "roundDouble x = Fin x"
proof -
  have "(0::rat) < 2 powi j" by simp
  then have "0 < \<bar>x\<bar>" using assms(1) by linarith
  then have x0: "x \<noteq> 0" by simp
  have il: "ilog2 x = j" using assms(1,2) by (rule ilog2_eq)
  have m: "max (ilog2 x - 52) (- 1074) = j - 52" using il assms(3) by simp
  have "x / 2 powi (j - 52) = of_int k" using assms(5) by simp
  then have r: "of_int (roundHalfEven (x / 2 powi (j - 52))) * 2 powi (j - 52) = x"
    using roundHalfEven_even [of "roundHalfEven (of_int k)"] assms(5)
    by (simp add: roundHalfEven_def)
  have "(2::rat) powi (j + 1) \<le> 2 powi 1024"
    using assms(4) by (intro power_int_increasing) simp_all
  then have "\<bar>x\<bar> < 2 ^ 1024" using assms(2) by simp
  then show ?thesis using x0 by (simp add: roundDouble_def Let_def m r)
qed

lemma roundDouble_50: "roundDouble 50 = Fin 50"
  by (rule roundDouble_exact [where j = 5 and k = "50 * 2 ^ 47"])
     (simp_all add: power_int_minus)

lemma roundDouble_110: "roundDouble 110 = Fin 110"
  by (rule roundDouble_exact [where j = 6 and k = "110 * 2 ^ 46"])
     (simp_all add: power_int_minus)

lemma roundHalfEven_near:
  assumes "\<bar>x - of_int k\<bar> < 1 / 2"
  shows "roundHalfEven x = k"
proof -
  have b: "of_int k - 1 / 2 < x" "x < of_int k + 1 / 2" using assms by linarith+
  have "\<lfloor>x\<rfloor> = k \<or> \<lfloor>x\<rfloor> = k - 1"
  proof -
    have "k - 1 \<le> \<lfloor>x\<rfloor>" using b(1) by (simp add: le_floor_iff)
    moreover have "\<lfloor>x\<rfloor> \<le> k" using b(2) by (simp add: floor_le_iff)
    ultimately show ?thesis by linarith
  qed
  then show ?thesis
  proof
    assume f: "\<lfloor>x\<rfloor> = k"
    then show ?thesis using b by (simp add: roundHalfEven_def Let_def)
  next
    assume f: "\<lfloor>x\<rfloor> = k - 1"
    then show ?thesis using b by (simp add: roundHalfEven_def Let_def)
  qed
qed

text \<open>A check of the rounding: the double of \<open>0.1\<close> is \<open>3602879701896397 / 2 ^ 55\<close>.\<close>

lemma roundDouble_tenth: "roundDouble (1 / 10) = Fin (3602879701896397 / 2 ^ 55)"
proof -
  define x :: rat where "x = 1 / 10"
  have x0: "x \<noteq> 0" by (simp add: x_def)
  have il: "ilog2 x = - 4"
    by (rule ilog2_eq) (simp_all add: power_int_minus x_def)
  have u: "(2::rat) powi (max (ilog2 x - 52) (- 1074)) = 1 / 2 ^ 56"
    by (simp add: il power_int_minus divide_simps)
  have r: "roundHalfEven (x / (1 / 2 ^ 56)) = 7205759403792794"
    by (rule roundHalfEven_near) (simp add: x_def)
  have "roundDouble x = Fin (3602879701896397 / 2 ^ 55)"
    using r by (simp add: roundDouble_def Let_def u x0)
  then show ?thesis by (simp add: x_def)
qed

lemma roundDouble_128: "roundDouble 128 = Fin 128"
  by (rule roundDouble_exact [where j = 7 and k = "2 ^ 52"]) (simp_all add: power_int_minus)

lemma fifty_fifty: "js_sub (Fin 100) (Fin 50) = Fin 50"
  by (simp add: js_sub_def roundDouble_50)

lemma firstYesPrice_truthy: "truthyNum (firstYesPrice ms)"
  by (simp add: firstYesPrice_def truthyNum_def split: option.splits)

subsection \<open>Normalised markets\<close>

lemma set_map_filter: "set (List.map_filter f xs) = {y. \<exists>x \<in> set xs. f x = Some y}"
  by (induction xs) (auto simp: List.map_filter_simps split: option.splits)

lemma polymarketMarket_title: "polymarketMarket env gm = Some m \<Longrightarrow> title m \<noteq> []"
  by (auto simp: polymarketMarket_def Let_def split: if_splits)

lemma kalshiMarket_title: "kalshiMarket dm = Some m \<Longrightarrow> title m \<noteq> []"
  by (auto simp: kalshiMarket_def Let_def split: if_splits)

lemma searchMarket_title: "searchMarket env sm = Some m \<Longrightarrow> title m \<noteq> []"
  by (auto simp: searchMarket_def Let_def split: if_splits)

lemma polymarketMarkets_title: "m \<in> set (polymarketMarkets env ms) \<Longrightarrow> title m \<noteq> []"
  by (auto simp: polymarketMarkets_def set_map_filter split: option.splits
           dest: polymarketMarket_title)

text \<open>
  C10: every market that one of the four normalisations returns (the two fetches, the two
  searches) has a non-empty title, and a market is left out exactly when its title is absent
  or empty (for Polymarket: when both \<open>question\<close> and \<open>title\<close> are).
\<close>

theorem titles_are_nonempty:
  "(fetchPolymarketEvent env slug = Some ev \<longrightarrow> (\<forall>m \<in> set (markets ev). title m \<noteq> []))
   \<and> (fetchKalshiEvent env ticker = Some ev \<longrightarrow> (\<forall>m \<in> set (markets ev). title m \<noteq> []))
   \<and> (\<forall>m \<in> set (searchPolymarket env q). title m \<noteq> [])
   \<and> (\<forall>m \<in> set (searchKalshi env q). title m \<noteq> [])
   \<and> (polymarketMarket env gm = None \<longleftrightarrow> \<not> present (question gm) \<and> \<not> present (gm_title gm))
   \<and> (kalshiMarket dm = None \<longleftrightarrow> \<not> present (dm_title dm))
   \<and> (searchMarket env sm = None \<longleftrightarrow> \<not> present (sm_title sm))"
proof -
  have a: "\<forall>m \<in> set (markets ev). title m \<noteq> []" if "fetchPolymarketEvent env slug = Some ev"
    using that
    by (auto simp: fetchPolymarketEvent_def split: reply.splits dest: polymarketMarkets_title)
  have b: "\<forall>m \<in> set (markets ev). title m \<noteq> []" if "fetchKalshiEvent env ticker = Some ev"
    using that
    by (auto simp: fetchKalshiEvent_def set_map_filter split: sum.splits option.splits
             dest: kalshiMarket_title)
  have c: "\<forall>m \<in> set (searchPolymarket env q). title m \<noteq> []"
    by (auto simp: searchPolymarket_def split: reply.splits option.splits
             dest: polymarketMarkets_title)
  have d: "\<forall>m \<in> set (searchKalshi env q). title m \<noteq> []"
    by (auto simp: searchKalshi_def set_map_filter split: sum.splits option.splits
             dest: searchMarket_title)
  have e: "polymarketMarket env gm = None \<longleftrightarrow> \<not> present (question gm) \<and> \<not> present (gm_title gm)"
    by (auto simp: polymarketMarket_def Let_def orElse_def present_def split: option.splits)
  have f: "kalshiMarket dm = None \<longleftrightarrow> \<not> present (dm_title dm)"
    by (auto simp: kalshiMarket_def Let_def orElse_def present_def split: option.splits)
  have g: "searchMarket env sm = None \<longleftrightarrow> \<not> present (sm_title sm)"
    by (auto simp: searchMarket_def Let_def orElse_def present_def split: option.splits)
  show ?thesis using a b c d e f g by blast
qed

text \<open>
  C10, an example: of the two markets of the sample event the one without a title is left
  out.
\<close>

theorem titles_are_nonempty_witness:
  "fetchPolymarketEvent demo ''fed-decision''
     = Some \<lparr>eventTitle = ''Fed decision in December?'',
              markets = [\<lparr>title = ''Will the Fed cut rates?'', yesPrice = Fin 50\<rparr>],
              source = Polymarket\<rparr>
   \<and> list_all (\<lambda>m. title m \<noteq> [])
       (markets \<lparr>eventTitle = ''Fed decision in December?'',
                 markets = [\<lparr>title = ''Will the Fed cut rates?'', yesPrice = Fin 50\<rparr>],
                 source = Polymarket\<rparr>)
   \<and> polymarketMarket demo \<lparr>question = None, gm_title = Some [], outcomePrices = None\<rparr> = None"
proof -
  let ?ev = "\<lparr>eventTitle = ''Fed decision in December?'',
              markets = [\<lparr>title = ''Will the Fed cut rates?'', yesPrice = Fin 50\<rparr>],
              source = Polymarket\<rparr>"
  let ?gm = "\<lparr>question = None, gm_title = Some [], outcomePrices = None\<rparr>"
  note t = titles_are_nonempty [where env = demo and slug = "''fed-decision''" and ev = ?ev
                                  and gm = ?gm]
  have f: "fetchPolymarketEvent demo ''fed-decision'' = Some ?ev" by code_simp
  have a: "\<forall>m \<in> set (markets ?ev). title m \<noteq> []" using t f by blast
  have p: "\<not> present (question ?gm) \<and> \<not> present (gm_title ?gm)" by (simp add: present_def)
  have b: "polymarketMarket demo ?gm = None" using t p by blast
  show ?thesis using f a b by (simp add: list_all_iff)
qed

text \<open>
  C1 fails on the code. The market of the sample Kalshi event has a title and none of
  \<open>last_price\<close>, \<open>yes_bid\<close>, \<open>yes_ask\<close>: \<open>fetchKalshiEvent\<close> gives it the price \<open>NaN\<close>. A
  Polymarket market whose \<open>outcomePrices\<close> is the text \<open>[]\<close> parses, so nothing is thrown and
  the default is overwritten by \<open>parseFloat(undefined) * 100\<close>, which is \<open>NaN\<close>.
\<close>

theorem missing_prices_give_NaN:
  "fetchKalshiEvent demo ''KXFED-25DEC''
     = Some \<lparr>eventTitle = ''Fed decision'',
              markets = [\<lparr>title = ''Fed cuts in December'', yesPrice = NaN\<rparr>],
              source = Kalshi\<rparr>
   \<and> polymarketMarket demo
       \<lparr>question = Some ''Will the Fed cut rates?'', gm_title = None,
        outcomePrices = Some ''[]''\<rparr>
     = Some \<lparr>title = ''Will the Fed cut rates?'', yesPrice = NaN\<rparr>"
  by code_simp

text \<open>
  Where the default of 50 does apply: a Polymarket market without \<open>outcomePrices\<close>, with an
  empty one or with one that is not JSON, and a market of the Kalshi search with neither
  \<open>yesAsk\<close> nor \<open>yesBid\<close>.
\<close>

lemma default_price:
  "(\<not> present (outcomePrices gm) \<longrightarrow> polymarketYesPrice env gm = Fin 50)
   \<and> (outcomePrices gm = Some s \<and> JSON_parse env s = Inl e \<longrightarrow> polymarketYesPrice env gm = Fin 50)
   \<and> (\<not> present (yesAsk sm) \<and> \<not> present (yesBid sm) \<longrightarrow> searchYesPrice env sm = Fin 50)"
  by (simp add: polymarketYesPrice_def searchYesPrice_def)

subsection \<open>Early return and failed verdict\<close>

lemma handler_to_pipeline:
  assumes "req_method req = ''POST''"
    and "req_body req = Body (Some u) (Some model)" and "u \<noteq> []" and "model \<noteq> []"
    and "resolve env u = Inr (sourcePlatform, ident)"
  shows "handler env req =
           pipeline env u model sourcePlatform
             (if sourcePlatform = Polymarket then fetchPolymarketEvent env ident
              else fetchKalshiEvent env ident)"
  using assms
  by (auto simp: handler_def resolve_def present_def
           split: option.splits ArbitrageMarketSource.splits)

lemma generateSearchQuery_calls:
  "map callMode (snd (generateSearchQuery env t a b m)) = [TextMode]"
  by (simp add: generateSearchQuery_def Let_def split: prod.splits sum.splits)

lemma early_exit_response:
  assumes "req_method req = ''POST''"
    and "req_body req = Body (Some u) (Some model)" and "u \<noteq> []" and "model \<noteq> []"
    and "resolve env u = Inr (sourcePlatform, ident)"
    and "(if sourcePlatform = Polymarket then fetchPolymarketEvent env ident
          else fetchKalshiEvent env ident) = Some sourceEvent"
    and "markets sourceEvent \<noteq> []"
    and "fst (generateSearchQuery env (eventTitle sourceEvent) sourcePlatform
                (if sourcePlatform = Polymarket then Kalshi else Polymarket) model)
           = Inr searchQuery"
    and "(if sourcePlatform = Polymarket then searchKalshi env searchQuery
          else searchPolymarket env searchQuery) = []"
  shows "handler env req =
           (earlyReturn u model sourcePlatform
              (if sourcePlatform = Polymarket then Kalshi else Polymarket) sourceEvent
              searchQuery,
            snd (generateSearchQuery env (eventTitle sourceEvent) sourcePlatform
                   (if sourcePlatform = Polymarket then Kalshi else Polymarket) model))"
proof -
  define other where "other = (if sourcePlatform = Polymarket then Kalshi else Polymarket)"
  define calls where
    "calls = snd (generateSearchQuery env (eventTitle sourceEvent) sourcePlatform other model)"
  have h: "handler env req = pipeline env u model sourcePlatform (Some sourceEvent)"
    using handler_to_pipeline [OF assms(1-5)] assms(6) by simp
  have g: "generateSearchQuery env (eventTitle sourceEvent) sourcePlatform other model
             = (Inr searchQuery, calls)"
    using assms(8) unfolding other_def calls_def by (metis prod.collapse)
  have s: "(if other = Polymarket then searchPolymarket env searchQuery
            else searchKalshi env searchQuery) = []"
    using assms(9) unfolding other_def by (cases sourcePlatform) simp_all
  have "pipeline env u model sourcePlatform (Some sourceEvent)
          = (earlyReturn u model sourcePlatform other sourceEvent searchQuery, calls)"
    using assms(7) by (simp add: pipeline_def Let_def other_def [symmetric] g s)
  then show ?thesis unfolding h other_def calls_def .
qed

lemma verdict_response:
  assumes "req_method req = ''POST''"
    and "req_body req = Body (Some u) (Some model)" and "u \<noteq> []" and "model \<noteq> []"
    and "resolve env u = Inr (sourcePlatform, ident)"
    and "(if sourcePlatform = Polymarket then fetchPolymarketEvent env ident
          else fetchKalshiEvent env ident) = Some sourceEvent"
    and "markets sourceEvent \<noteq> []"
    and "fst (generateSearchQuery env (eventTitle sourceEvent) sourcePlatform
                (if sourcePlatform = Polymarket then Kalshi else Polymarket) model)
           = Inr searchQuery"
    and "(if sourcePlatform = Polymarket then searchKalshi env searchQuery
          else searchPolymarket env searchQuery) = searchResults"
    and "searchResults \<noteq> []"
    and "arbitrageAnalysisPrompt env (sourceMarketOf sourceEvent) searchResults
           (if sourcePlatform = Polymarket then Kalshi else Polymarket)
           = (systemPrompt, userPrompt)"
    and "(if isOpenAIModel model then callOpenAIResponses env else callGrokResponses env)
           userPrompt systemPrompt JsonObject model 3 = Inr verdict"
  shows "fst (handler env req) =
           (case buildAnalysis env sourceEvent
                   (join [CHR 0x0A] (messageTexts (ai_output verdict))) of
              Inl e \<Rightarrow> unhandled e
            | Inr analysis \<Rightarrow>
                analysisResponse analysis (ai_model verdict) (total_tokens verdict)
                  sourcePlatform (if sourcePlatform = Polymarket then Kalshi else Polymarket))"
proof -
  define other where "other = (if sourcePlatform = Polymarket then Kalshi else Polymarket)"
  define calls where
    "calls = snd (generateSearchQuery env (eventTitle sourceEvent) sourcePlatform other model)"
  define built where
    "built = buildAnalysis env sourceEvent (join [CHR 0x0A] (messageTexts (ai_output verdict)))"
  have h: "handler env req = pipeline env u model sourcePlatform (Some sourceEvent)"
    using handler_to_pipeline [OF assms(1-5)] assms(6) by simp
  have g: "generateSearchQuery env (eventTitle sourceEvent) sourcePlatform other model
             = (Inr searchQuery, calls)"
    using assms(8) unfolding other_def calls_def by (metis prod.collapse)
  have s: "(if other = Polymarket then searchPolymarket env searchQuery
            else searchKalshi env searchQuery) = searchResults"
    using assms(9) unfolding other_def by (cases sourcePlatform) simp_all
  have pr: "arbitrageAnalysisPrompt env (sourceMarketOf sourceEvent) searchResults other
              = (systemPrompt, userPrompt)"
    using assms(11) unfolding other_def .
  have a: "fst (analyzeArbitrage env sourceEvent searchResults other model)
             = (case built of
                  Inl e \<Rightarrow> Inl e
                | Inr analysis \<Rightarrow> Inr (analysis, ai_model verdict, total_tokens verdict))"
    using assms(12)
    by (simp add: analyzeArbitrage_def pr built_def [symmetric] split: if_splits)
  obtain calls' where a': "analyzeArbitrage env sourceEvent searchResults other model
      = (case built of
           Inl e \<Rightarrow> Inl e
         | Inr analysis \<Rightarrow> Inr (analysis, ai_model verdict, total_tokens verdict), calls')"
    using a by (metis prod.collapse)
  have "fst (pipeline env u model sourcePlatform (Some sourceEvent))
          = (case built of
               Inl e \<Rightarrow> unhandled e
             | Inr analysis \<Rightarrow>
                 analysisResponse analysis (ai_model verdict) (total_tokens verdict)
                   sourcePlatform other)"
    using assms(7,10)
    by (simp add: pipeline_def Let_def other_def [symmetric] g s a' split: sum.splits)
  then show ?thesis unfolding h other_def built_def .
qed

text \<open>
  C3: a \<open>POST\<close> request with a URL and a model, whose URL resolves, whose source event is
  fetched with at least one market, for which the query step returns a query, and for
  which the search of the other platform returns nothing, is answered with status 200,
  \<open>success\<close>, \<open>isSameMarket\<close> false, \<open>sameMarketConfidence\<close> 0 and \<open>hasArbitrage\<close> false; the
  only call to a language-model client is the text call of the query step, so the verdict
  step (a \<open>json_object\<close> call) is not made.
\<close>

theorem early_exit:
  assumes "req_method req = ''POST''"
    and "req_body req = Body (Some u) (Some model)" and "u \<noteq> []" and "model \<noteq> []"
    and "resolve env u = Inr (sourcePlatform, ident)"
    and "(if sourcePlatform = Polymarket then fetchPolymarketEvent env ident
          else fetchKalshiEvent env ident) = Some sourceEvent"
    and "markets sourceEvent \<noteq> []"
    and "fst (generateSearchQuery env (eventTitle sourceEvent) sourcePlatform
                (if sourcePlatform = Polymarket then Kalshi else Polymarket) model)
           = Inr searchQuery"
    and "(if sourcePlatform = Polymarket then searchKalshi env searchQuery
          else searchPolymarket env searchQuery) = []"
  shows "\<exists>r a. fst (handler env req) = Response 200 r \<and> success r \<and> data r = Some a
           \<and> isSameMarket a = JBool False
           \<and> sameMarketConfidence a = JNum (Fin 0)
           \<and> field (arbitrage a) ''hasArbitrage'' = JBool False
           \<and> map callMode (snd (handler env req)) = [TextMode]"
  unfolding early_exit_response [OF assms]
  by (simp add: earlyReturn_def generateSearchQuery_calls)

text \<open>
  C3, an example: the Kalshi URL of the sample world, whose event is searched on Polymarket,
  where nothing is found.
\<close>

theorem early_exit_witness:
  "\<exists>r a. fst (handler demo
                 (post ''https://kalshi.com/markets/kxfed/fed-decision/kxfed-25dec'' ''gpt-4.1''))
             = Response 200 r
         \<and> success r \<and> data r = Some a
         \<and> isSameMarket a = JBool False
         \<and> sameMarketConfidence a = JNum (Fin 0)
         \<and> field (arbitrage a) ''hasArbitrage'' = JBool False
         \<and> map callMode
              (snd (handler demo
                 (post ''https://kalshi.com/markets/kxfed/fed-decision/kxfed-25dec'' ''gpt-4.1'')))
             = [TextMode]"
proof -
  let ?u = "''https://kalshi.com/markets/kxfed/fed-decision/kxfed-25dec''"
  let ?ev = "\<lparr>eventTitle = ''Fed decision'',
              markets = [\<lparr>title = ''Fed cuts in December'', yesPrice = NaN\<rparr>],
              source = Kalshi\<rparr>"
  have m: "req_method (post ?u ''gpt-4.1'') = ''POST''" by (simp add: post_def)
  have b: "req_body (post ?u ''gpt-4.1'') = Body (Some ?u) (Some ''gpt-4.1'')"
    by (simp add: post_def)
  have u: "?u \<noteq> []" and mo: "''gpt-4.1'' \<noteq> []" by simp_all
  have r: "resolve demo ?u = Inr (Kalshi, ''KXFED-25DEC'')" by code_simp
  have f: "(if Kalshi = Polymarket then fetchPolymarketEvent demo ''KXFED-25DEC''
            else fetchKalshiEvent demo ''KXFED-25DEC'') = Some ?ev"
    by code_simp
  have n: "markets ?ev \<noteq> []" by simp
  have g: "fst (generateSearchQuery demo (eventTitle ?ev) Kalshi
                 (if Kalshi = Polymarket then Kalshi else Polymarket) ''gpt-4.1'') = Inr ''Fed''"
    by code_simp
  have s: "(if Kalshi = Polymarket then searchKalshi demo ''Fed''
            else searchPolymarket demo ''Fed'') = []"
    by code_simp
  show ?thesis by (rule early_exit [OF m b u mo r f n g s])
qed

text \<open>
  C7: when the pipeline reaches the verdict step, the client returns a response, and the
  text of the response is rejected by \<open>JSON.parse\<close>, the request is answered with status
  500, \<open>success\<close> false, the message of the error, and no analysis.
\<close>

theorem unparsable_verdict:
  assumes "req_method req = ''POST''"
    and "req_body req = Body (Some u) (Some model)" and "u \<noteq> []" and "model \<noteq> []"
    and "resolve env u = Inr (sourcePlatform, ident)"
    and "(if sourcePlatform = Polymarket then fetchPolymarketEvent env ident
          else fetchKalshiEvent env ident) = Some sourceEvent"
    and "markets sourceEvent \<noteq> []"
    and "fst (generateSearchQuery env (eventTitle sourceEvent) sourcePlatform
                (if sourcePlatform = Polymarket then Kalshi else Polymarket) model)
           = Inr searchQuery"
    and "(if sourcePlatform = Polymarket then searchKalshi env searchQuery
          else searchPolymarket env searchQuery) = searchResults"
    and "searchResults \<noteq> []"
    and "arbitrageAnalysisPrompt env (sourceMarketOf sourceEvent) searchResults
           (if sourcePlatform = Polymarket then Kalshi else Polymarket)
           = (systemPrompt, userPrompt)"
    and "(if isOpenAIModel model then callOpenAIResponses env else callGrokResponses env)
           userPrompt systemPrompt JsonObject model 3 = Inr verdict"
    and "JSON_parse env (join [CHR 0x0A] (messageTexts (ai_output verdict))) = Inl msg"
  shows "\<exists>r. fst (handler env req) = Response 500 r \<and> \<not> success r \<and> data r = None
           \<and> error r = Some msg"
proof -
  have "buildAnalysis env sourceEvent (join [CHR 0x0A] (messageTexts (ai_output verdict)))
          = Inl msg"
    using assms(13) by (simp add: buildAnalysis_def)
  then show ?thesis
    unfolding verdict_response [OF assms(1-12)] by (simp add: unhandled_def)
qed

text \<open>
  C7, an example: the Polymarket URL of the sample world with a Grok model, whose verdict is
  a sentence.
\<close>

theorem unparsable_verdict_witness:
  "\<exists>r. fst (handler demo (post ''https://polymarket.com/event/fed-decision'' ''grok-4''))
           = Response 500 r
       \<and> \<not> success r \<and> data r = None \<and> error r = Some ''Unexpected token''"
proof -
  let ?u = "''https://polymarket.com/event/fed-decision''"
  let ?ev = "\<lparr>eventTitle = ''Fed decision in December?'',
              markets = [\<lparr>title = ''Will the Fed cut rates?'', yesPrice = Fin 50\<rparr>],
              source = Polymarket\<rparr>"
  let ?found = "[\<lparr>title = ''Fed cuts in December'', yesPrice = Fin 44\<rparr>]"
  let ?verdict = "reply ''These two markets look the same.'' ''grok-4'' 321"
  have m: "req_method (post ?u ''grok-4'') = ''POST''" by (simp add: post_def)
  have b: "req_body (post ?u ''grok-4'') = Body (Some ?u) (Some ''grok-4'')"
    by (simp add: post_def)
  have u: "?u \<noteq> []" and mo: "''grok-4'' \<noteq> []" by simp_all
  have r: "resolve demo ?u = Inr (Polymarket, ''fed-decision'')" by code_simp
  have f: "(if Polymarket = Polymarket then fetchPolymarketEvent demo ''fed-decision''
            else fetchKalshiEvent demo ''fed-decision'') = Some ?ev"
    by code_simp
  have n: "markets ?ev \<noteq> []" by simp
  have g: "fst (generateSearchQuery demo (eventTitle ?ev) Polymarket
                 (if Polymarket = Polymarket then Kalshi else Polymarket) ''grok-4'')
             = Inr ''Fed''"
    by code_simp
  have s: "(if Polymarket = Polymarket then searchKalshi demo ''Fed''
            else searchPolymarket demo ''Fed'') = ?found"
    by code_simp
  have ne: "?found \<noteq> []" by simp
  have p: "arbitrageAnalysisPrompt demo (sourceMarketOf ?ev) ?found
             (if Polymarket = Polymarket then Kalshi else Polymarket)
             = (''Answer with a JSON object.'', ''Compare the markets.'')"
    by (simp add: demo_def)
  have c: "(if isOpenAIModel ''grok-4'' then callOpenAIResponses demo else callGrokResponses demo)
             ''Compare the markets.'' ''Answer with a JSON object.'' JsonObject ''grok-4'' 3
             = Inr ?verdict"
    by code_simp
  have j: "JSON_parse demo (join [CHR 0x0A] (messageTexts (ai_output ?verdict)))
             = Inl ''Unexpected token''"
    by code_simp
  show ?thesis by (rule unparsable_verdict [OF m b u mo r f n g s ne p c j])
qed

subsection \<open>The source slot\<close>

lemma sourceName_polymarket: "sourceName sp = ''polymarket'' \<longleftrightarrow> sp = Polymarket"
  by (cases sp) simp_all

lemma buildAnalysis_slots:
  assumes "buildAnalysis env ev verdict = Inr a"
  shows "(if source ev = Polymarket then polymarketData a else kalshiData a)
           = Some (Projection (sourceMarketOf ev))
       \<and> (\<exists>parsed. JSON_parse env verdict = Inr parsed
             \<and> (if source ev = Polymarket then kalshiData a else polymarketData a)
                 = matchedSlot parsed)"
  using assms
  by (cases "source ev") (auto simp: buildAnalysis_def split: sum.splits if_splits)

lemma analyzeArbitrage_slots:
  assumes "analyzeArbitrage env ev rs sp model = (Inr (a, used), calls)"
  shows "(if source ev = Polymarket then polymarketData a else kalshiData a)
           = Some (Projection (sourceMarketOf ev))
       \<and> (\<exists>b up sy v parsed.
             calls = [AICall b up sy JsonObject model 3]
             \<and> (if b = OpenAI then callOpenAIResponses env else callGrokResponses env)
                  up sy JsonObject model 3 = Inr v
             \<and> JSON_parse env (join [CHR 0x0A] (messageTexts (ai_output v))) = Inr parsed
             \<and> (if source ev = Polymarket then kalshiData a else polymarketData a)
                 = matchedSlot parsed)"
proof -
  obtain sy up where pr: "arbitrageAnalysisPrompt env (sourceMarketOf ev) rs sp = (sy, up)"
    by (cases "arbitrageAnalysisPrompt env (sourceMarketOf ev) rs sp")
  define b where "b = (if isOpenAIModel model then OpenAI else Grok)"
  define client where
    "client = (if b = OpenAI then callOpenAIResponses env else callGrokResponses env)"
  have an: "analyzeArbitrage env ev rs sp model =
          (case client up sy JsonObject model 3 of
             Inl e \<Rightarrow> Inl e
           | Inr v \<Rightarrow>
               (case buildAnalysis env ev (join [CHR 0x0A] (messageTexts (ai_output v))) of
                  Inl e \<Rightarrow> Inl e
                | Inr analysis \<Rightarrow> Inr (analysis, ai_model v, total_tokens v)),
           [AICall b up sy JsonObject model 3])"
    by (simp add: analyzeArbitrage_def pr b_def client_def split: sum.splits)
  obtain v where v: "client up sy JsonObject model 3 = Inr v"
    using assms an by (cases "client up sy JsonObject model 3") auto
  have ba: "buildAnalysis env ev (join [CHR 0x0A] (messageTexts (ai_output v))) = Inr a"
    using assms an v by (auto split: sum.splits)
  have c: "calls = [AICall b up sy JsonObject model 3]" using assms an by simp
  show ?thesis
    using buildAnalysis_slots [OF ba] c v unfolding client_def by blast
qed

text \<open>The source slot of an analysis, given the source platform, and the other slot.\<close>

lemma pipeline_slots:
  assumes "pipeline env u model sp (Some ev) = (Response st r, calls)"
    and "data r = Some a" and "source ev = sp"
  shows "\<exists>d. (if sp = Polymarket then polymarketData a else kalshiData a) = Some (Projection d)
           \<and> md_yesPrice d = firstYesPrice (markets ev)
           \<and> md_noPrice d = js_sub (Fin 100) (firstYesPrice (markets ev))
           \<and> md_source d = sp
           \<and> md_name d = eventTitle ev
           \<and> md_rawData d = Some (eventTitle ev, markets ev)
           \<and> markets ev \<noteq> []
           \<and> ((if sp = Polymarket then kalshiData a else polymarketData a) = None
               \<or> (\<exists>b up sy v parsed.
                     last calls = AICall b up sy JsonObject model 3
                     \<and> (if b = OpenAI then callOpenAIResponses env else callGrokResponses env)
                          up sy JsonObject model 3 = Inr v
                     \<and> JSON_parse env (join [CHR 0x0A] (messageTexts (ai_output v)))
                         = Inr parsed
                     \<and> (if sp = Polymarket then kalshiData a else polymarketData a)
                         = matchedSlot parsed))
           \<and> (\<exists>md. meta r = Some md \<and> sourceMarket md = sourceName sp)"
proof -
  define other where "other = (if sp = Polymarket then Kalshi else Polymarket)"
  obtain res calls0 where g: "generateSearchQuery env (eventTitle ev) sp other model = (res, calls0)"
    by (cases "generateSearchQuery env (eventTitle ev) sp other model")
  have ne: "markets ev \<noteq> []"
    using assms(1,2) by (auto simp: pipeline_def Let_def failure_def)
  show ?thesis
  proof (cases res)
    case (Inl e)
    then have "pipeline env u model sp (Some ev) = (unhandled e, calls0)"
      using ne by (simp add: pipeline_def Let_def other_def [symmetric] g)
    then show ?thesis using assms(1,2) by (simp add: unhandled_def)
  next
    case (Inr q)
    define results where
      "results = (if other = Polymarket then searchPolymarket env q else searchKalshi env q)"
    show ?thesis
    proof (cases "results = []")
      case True
      have "pipeline env u model sp (Some ev) = (earlyReturn u model sp other ev q, calls0)"
        using ne True
        by (simp add: pipeline_def Let_def other_def [symmetric] g Inr results_def [symmetric])
      then have r: "Response st r = earlyReturn u model sp other ev q" using assms(1) by simp
      show ?thesis
        using r assms(2) ne
        by (cases sp) (auto simp: earlyReturn_def earlySourceMarket_def)
    next
      case False
      obtain ares calls1 where an: "analyzeArbitrage env ev results other model = (ares, calls1)"
        by (cases "analyzeArbitrage env ev results other model")
      show ?thesis
      proof (cases ares)
        case (Inl e)
        then have "pipeline env u model sp (Some ev) = (unhandled e, calls0 @ calls1)"
          using ne False
          by (simp add: pipeline_def Let_def other_def [symmetric] g \<open>res = Inr q\<close>
                        results_def [symmetric] an)
        then show ?thesis using assms(1,2) by (simp add: unhandled_def)
      next
        case (Inr triple)
        obtain a' used tokens where t: "triple = (a', used, tokens)" by (cases triple)
        have pl: "pipeline env u model sp (Some ev)
                = (analysisResponse a' used tokens sp other, calls0 @ calls1)"
          using ne False
          by (simp add: pipeline_def Let_def other_def [symmetric] g \<open>res = Inr q\<close>
                        results_def [symmetric] an Inr t)
        then have r: "Response st r = analysisResponse a' used tokens sp other"
          using assms(1) by simp
        then have a: "a' = a" using assms(2) by (auto simp: analysisResponse_def)
        have cs: "calls = calls0 @ calls1" using pl assms(1) by simp
        have "analyzeArbitrage env ev results other model = (Inr (a, used, tokens), calls1)"
          using an Inr t a by simp
        from analyzeArbitrage_slots [OF this]
        obtain b up sy v parsed where
          src: "(if source ev = Polymarket then polymarketData a else kalshiData a)
                  = Some (Projection (sourceMarketOf ev))"
          and c1: "calls1 = [AICall b up sy JsonObject model 3]"
          and cl: "(if b = OpenAI then callOpenAIResponses env else callGrokResponses env)
                     up sy JsonObject model 3 = Inr v"
          and js: "JSON_parse env (join [CHR 0x0A] (messageTexts (ai_output v))) = Inr parsed"
          and ot: "(if source ev = Polymarket then kalshiData a else polymarketData a)
                     = matchedSlot parsed"
          by blast
        have la: "last calls = AICall b up sy JsonObject model 3" using cs c1 by simp
        have ex: "\<exists>b up sy v parsed.
                     last calls = AICall b up sy JsonObject model 3
                     \<and> (if b = OpenAI then callOpenAIResponses env else callGrokResponses env)
                          up sy JsonObject model 3 = Inr v
                     \<and> JSON_parse env (join [CHR 0x0A] (messageTexts (ai_output v)))
                         = Inr parsed
                     \<and> (if sp = Polymarket then kalshiData a else polymarketData a)
                         = matchedSlot parsed"
          using la cl js ot assms(3) by blast
        have md: "\<exists>md. meta r = Some md \<and> sourceMarket md = sourceName sp"
          using r by (auto simp: analysisResponse_def)
        have "(if sp = Polymarket then polymarketData a else kalshiData a)
                = Some (Projection (sourceMarketOf ev))"
          using src assms(3) by simp
        then show ?thesis
          using ex md ne assms(3) by (simp add: sourceMarketOf_def)
      qed
    qed
  qed
qed

lemma handler_analysis:
  assumes "handler env req = (Response st r, calls)" and "data r = Some a"
  shows "\<exists>u model sp ev ident. source ev = sp
           \<and> (if sp = Polymarket then fetchPolymarketEvent env ident
               else fetchKalshiEvent env ident) = Some ev
           \<and> pipeline env u model sp (Some ev) = (Response st r, calls)"
proof -
  have post: "req_method req = ''POST''" "req_method req \<noteq> ''OPTIONS''"
    using assms by (auto simp: handler_def failure_def split: if_splits)
  obtain uo mo where b: "req_body req = Body uo mo"
    using assms post by (cases "req_body req") (auto simp: handler_def failure_def)
  have pu: "present uo" and pm: "present mo"
    using assms post b by (auto simp: handler_def failure_def split: if_splits)
  obtain sp where d: "detectPlatform (the uo) = Some sp"
    using assms post b pu pm
    by (cases "detectPlatform (the uo)") (auto simp: handler_def failure_def)
  show ?thesis
  proof (cases sp)
    case Polymarket
    obtain slug where s: "extractPolymarketSlug env (the uo) = Some slug"
      using assms post b pu pm d Polymarket
      by (cases "extractPolymarketSlug env (the uo)") (auto simp: handler_def failure_def)
    have h: "handler env req
               = pipeline env (the uo) (the mo) Polymarket (fetchPolymarketEvent env slug)"
      using post b pu pm d Polymarket s by (simp add: handler_def)
    obtain ev where f: "fetchPolymarketEvent env slug = Some ev"
      using assms h
      by (cases "fetchPolymarketEvent env slug") (auto simp: pipeline_def failure_def)
    have sv: "source ev = Polymarket"
      using f by (auto simp: fetchPolymarketEvent_def split: reply.splits)
    have "(if Polymarket = Polymarket then fetchPolymarketEvent env slug
           else fetchKalshiEvent env slug) = Some ev"
      using f by simp
    moreover have "pipeline env (the uo) (the mo) Polymarket (Some ev) = (Response st r, calls)"
      using assms(1) h f by simp
    ultimately show ?thesis using sv by blast
  next
    case Kalshi
    obtain ticker where s: "extractKalshiTicker env (the uo) = Some ticker"
      using assms post b pu pm d Kalshi
      by (cases "extractKalshiTicker env (the uo)") (auto simp: handler_def failure_def)
    have h: "handler env req
               = pipeline env (the uo) (the mo) Kalshi (fetchKalshiEvent env ticker)"
      using post b pu pm d Kalshi s by (simp add: handler_def)
    obtain ev where f: "fetchKalshiEvent env ticker = Some ev"
      using assms h
      by (cases "fetchKalshiEvent env ticker") (auto simp: pipeline_def failure_def)
    have sv: "source ev = Kalshi"
      using f by (auto simp: fetchKalshiEvent_def split: sum.splits)
    have "(if Kalshi = Polymarket then fetchPolymarketEvent env ticker
           else fetchKalshiEvent env ticker) = Some ev"
      using f by simp
    moreover have "pipeline env (the uo) (the mo) Kalshi (Some ev) = (Response st r, calls)"
      using assms(1) h f by simp
    ultimately show ?thesis using sv by blast
  qed
qed

lemma firstYesPrice_Cons:
  "firstYesPrice (m # ms) = (if yesPrice m = NaN \<or> yesPrice m = Fin 0 then Fin 50 else yesPrice m)"
  by (simp add: firstYesPrice_def idx_def truthyNum_def)

text \<open>
  The sample world with a price: Polymarket quotes the market of \<open>fed-decision\<close> at 0.25
  for yes, which is fetched as the price 25.
\<close>

lemma roundDouble_25: "roundDouble 25 = Fin 25"
  by (rule roundDouble_exact [where j = 4 and k = "25 * 2 ^ 48"])
     (simp_all add: power_int_minus)

lemma roundDouble_75: "roundDouble 75 = Fin 75"
  by (rule roundDouble_exact [where j = 6 and k = "75 * 2 ^ 46"])
     (simp_all add: power_int_minus)

lemma priced_fetch:
  "fetchPolymarketEvent priced ''fed-decision''
     = Some \<lparr>eventTitle = ''Fed decision in December?'',
              markets = [\<lparr>title = ''Will the Fed cut rates?'', yesPrice = Fin 25\<rparr>],
              source = Polymarket\<rparr>"
proof -
  have j: "JSON_parse priced ''[\"0.25\", \"0.75\"]'' = Inr (JArr [JStr ''0.25'', JStr ''0.75''])"
    by code_simp
  have p: "parseFloat priced (JStr ''0.25'') = Fin (1 / 4)" by code_simp
  have g: "gammaEvent priced ''fed-decision''
             = Payload
                 \<lparr>ge_title = Some ''Fed decision in December?'',
                  ge_markets = Some
                    [\<lparr>question = Some ''Will the Fed cut rates?'', gm_title = None,
                      outcomePrices = Some ''[\"0.25\", \"0.75\"]''\<rparr>]\<rparr>"
    by code_simp
  show ?thesis
    by (simp add: fetchPolymarketEvent_def g polymarketMarkets_def polymarketMarket_def
                  polymarketYesPrice_def j p List.map_filter_simps orElse_def present_def
                  roundDouble_25)
qed

lemma priced_run:
  "fst (handler priced (post ''https://polymarket.com/event/fed-decision'' ''gpt-4.1''))
     = (case buildAnalysis priced
               \<lparr>eventTitle = ''Fed decision in December?'',
                markets = [\<lparr>title = ''Will the Fed cut rates?'', yesPrice = Fin 25\<rparr>],
                source = Polymarket\<rparr>
               verdictText of
          Inl e \<Rightarrow> unhandled e
        | Inr analysis \<Rightarrow> analysisResponse analysis ''gpt-4.1'' (Some 321) Polymarket Kalshi)"
proof -
  let ?u = "''https://polymarket.com/event/fed-decision''"
  let ?ev = "\<lparr>eventTitle = ''Fed decision in December?'',
              markets = [\<lparr>title = ''Will the Fed cut rates?'', yesPrice = Fin 25\<rparr>],
              source = Polymarket\<rparr>"
  let ?found = "[\<lparr>title = ''Fed cuts in December'', yesPrice = Fin 44\<rparr>]"
  let ?verdict = "reply verdictText ''gpt-4.1'' 321"
  have m: "req_method (post ?u ''gpt-4.1'') = ''POST''" by (simp add: post_def)
  have b: "req_body (post ?u ''gpt-4.1'') = Body (Some ?u) (Some ''gpt-4.1'')"
    by (simp add: post_def)
  have u: "?u \<noteq> []" and mo: "''gpt-4.1'' \<noteq> []" by simp_all
  have r: "resolve priced ?u = Inr (Polymarket, ''fed-decision'')" by code_simp
  have f: "(if Polymarket = Polymarket then fetchPolymarketEvent priced ''fed-decision''
            else fetchKalshiEvent priced ''fed-decision'') = Some ?ev"
    by (simp add: priced_fetch)
  have n: "markets ?ev \<noteq> []" by simp
  have g: "fst (generateSearchQuery priced (eventTitle ?ev) Polymarket
                 (if Polymarket = Polymarket then Kalshi else Polymarket) ''gpt-4.1'')
             = Inr ''Fed''"
    by code_simp
  have s: "(if Polymarket = Polymarket then searchKalshi priced ''Fed''
            else searchPolymarket priced ''Fed'') = ?found"
    by code_simp
  have ne: "?found \<noteq> []" by simp
  have p: "arbitrageAnalysisPrompt priced (sourceMarketOf ?ev) ?found
             (if Polymarket = Polymarket then Kalshi else Polymarket)
             = (''Answer with a JSON object.'', ''Compare the markets.'')"
    by (simp add: priced_def demo_def)
  have c: "(if isOpenAIModel ''gpt-4.1'' then callOpenAIResponses priced
            else callGrokResponses priced)
             ''Compare the markets.'' ''Answer with a JSON object.'' JsonObject ''gpt-4.1'' 3
             = Inr ?verdict"
    by code_simp
  have t: "join [CHR 0x0A] (messageTexts (ai_output ?verdict)) = verdictText"
    by (simp add: reply_def messageTexts_def List.map_filter_simps)
  have a: "ai_model ?verdict = ''gpt-4.1''" "total_tokens ?verdict = Some 321"
    by (simp_all add: reply_def)
  show ?thesis
    using verdict_response [OF m b u mo r f n g s ne p c] unfolding t a by simp
qed

text \<open>
  C2, as the code has it: in every analysis the handler returns, after the full analysis
  and on the early return, the slot of the source platform holds the record built in this
  file from the event that was fetched for the URL. Its name is the title of that event and
  its raw data are that event; its \<open>yesPrice\<close> is the price of the first market of the
  event, or 50 when that price is \<open>NaN\<close> or 0; its \<open>noPrice\<close> is \<open>100 - yesPrice\<close>; and the
  two add up to exactly 100 in double arithmetic whenever \<open>yesPrice\<close> lies between 0 and
  100. The other slot never holds a record built here: it is unset, or it is, unchanged,
  the truthy value under \<open>matchedMarket\<close> of what \<open>JSON.parse\<close> gave for the text of the
  reply to the last client call; nothing is promised about the prices in it.
\<close>

theorem source_slot_sums_to_100:
  assumes "handler env req = (Response st r, calls)" and "data r = Some a"
  shows "\<exists>md d ev ident m ms.
           meta r = Some md
         \<and> (if sourceMarket md = ''polymarket'' then fetchPolymarketEvent env ident
             else fetchKalshiEvent env ident) = Some ev
         \<and> markets ev = m # ms
         \<and> (if sourceMarket md = ''polymarket'' then polymarketData a else kalshiData a)
             = Some (Projection d)
         \<and> md_source d = (if sourceMarket md = ''polymarket'' then Polymarket else Kalshi)
         \<and> md_name d = eventTitle ev
         \<and> md_rawData d = Some (eventTitle ev, markets ev)
         \<and> md_yesPrice d
             = (if yesPrice m = NaN \<or> yesPrice m = Fin 0 then Fin 50 else yesPrice m)
         \<and> truthyNum (md_yesPrice d)
         \<and> md_noPrice d = js_sub (Fin 100) (md_yesPrice d)
         \<and> (\<forall>p. md_yesPrice d = Fin p \<and> 0 \<le> p \<and> p \<le> 100
                \<longrightarrow> js_add (md_yesPrice d) (md_noPrice d) = Fin 100)
         \<and> (\<forall>d'. (if sourceMarket md = ''polymarket'' then kalshiData a
                    else polymarketData a) \<noteq> Some (Projection d'))
         \<and> ((if sourceMarket md = ''polymarket'' then kalshiData a else polymarketData a) = None
             \<or> (\<exists>b up sy model v parsed.
                   last calls = AICall b up sy JsonObject model 3
                   \<and> (if b = OpenAI then callOpenAIResponses env else callGrokResponses env)
                        up sy JsonObject model 3 = Inr v
                   \<and> JSON_parse env (join [CHR 0x0A] (messageTexts (ai_output v))) = Inr parsed
                   \<and> truthy (field parsed ''matchedMarket'')
                   \<and> (if sourceMarket md = ''polymarket'' then kalshiData a
                       else polymarketData a)
                       = Some (Reported (field parsed ''matchedMarket''))))"
proof -
  obtain u model sp ev ident where s: "source ev = sp"
    and f: "(if sp = Polymarket then fetchPolymarketEvent env ident
             else fetchKalshiEvent env ident) = Some ev"
    and p: "pipeline env u model sp (Some ev) = (Response st r, calls)"
    using handler_analysis [OF assms] by blast
  obtain d md where d: "(if sp = Polymarket then polymarketData a else kalshiData a)
                          = Some (Projection d)"
    and y: "md_yesPrice d = firstYesPrice (markets ev)"
    and n: "md_noPrice d = js_sub (Fin 100) (firstYesPrice (markets ev))"
    and so: "md_source d = sp"
    and nm: "md_name d = eventTitle ev"
    and rw: "md_rawData d = Some (eventTitle ev, markets ev)"
    and ne: "markets ev \<noteq> []"
    and o: "(if sp = Polymarket then kalshiData a else polymarketData a) = None
            \<or> (\<exists>b up sy v parsed.
                  last calls = AICall b up sy JsonObject model 3
                  \<and> (if b = OpenAI then callOpenAIResponses env else callGrokResponses env)
                       up sy JsonObject model 3 = Inr v
                  \<and> JSON_parse env (join [CHR 0x0A] (messageTexts (ai_output v))) = Inr parsed
                  \<and> (if sp = Polymarket then kalshiData a else polymarketData a)
                      = matchedSlot parsed)"
    and m: "meta r = Some md" "sourceMarket md = sourceName sp"
    using pipeline_slots [OF p assms(2) s] by blast
  obtain m ms where ms: "markets ev = m # ms" using ne by (cases "markets ev") auto
  have pm: "sourceMarket md = ''polymarket'' \<longleftrightarrow> sp = Polymarket"
    using m(2) by (simp add: sourceName_polymarket)
  have y': "md_yesPrice d
              = (if yesPrice m = NaN \<or> yesPrice m = Fin 0 then Fin 50 else yesPrice m)"
    using y ms by (simp add: firstYesPrice_Cons)
  have t: "truthyNum (md_yesPrice d)" using y by (simp add: firstYesPrice_truthy)
  have n': "md_noPrice d = js_sub (Fin 100) (md_yesPrice d)" using y n by simp
  have sum: "\<forall>q. md_yesPrice d = Fin q \<and> 0 \<le> q \<and> q \<le> 100
                 \<longrightarrow> js_add (md_yesPrice d) (md_noPrice d) = Fin 100"
    using n' yes_plus_no by simp
  have o': "(if sp = Polymarket then kalshiData a else polymarketData a) = None
            \<or> (\<exists>b up sy model v parsed.
                  last calls = AICall b up sy JsonObject model 3
                  \<and> (if b = OpenAI then callOpenAIResponses env else callGrokResponses env)
                       up sy JsonObject model 3 = Inr v
                  \<and> JSON_parse env (join [CHR 0x0A] (messageTexts (ai_output v))) = Inr parsed
                  \<and> truthy (field parsed ''matchedMarket'')
                  \<and> (if sp = Polymarket then kalshiData a else polymarketData a)
                      = Some (Reported (field parsed ''matchedMarket'')))"
    using o unfolding matchedSlot_def by (metis (no_types, lifting))
  have np: "\<forall>d'. (if sp = Polymarket then kalshiData a else polymarketData a)
                   \<noteq> Some (Projection d')"
    using o' by auto
  have so': "md_source d = (if sp = Polymarket then Polymarket else Kalshi)"
    using so by (cases sp) simp_all
  note facts = f d so' o' np
  show ?thesis
    using m(1) facts [folded pm] ms nm rw y' t n' sum by blast
qed

text \<open>
  C2, two examples. The early return for the Kalshi URL of the sample world, whose first
  market has no price (\<open>NaN\<close>): the Kalshi slot holds 50 and 50 and the Polymarket slot is
  unset. The full analysis for the Polymarket URL of the sample world with a price: the
  Polymarket slot holds 25 and 75, and the Kalshi slot holds the matched market as the
  language model reported it.
\<close>

theorem source_slot_sums_to_100_witness:
  "(\<exists>a d. analysisOf (fst (handler demo
                (post ''https://kalshi.com/markets/kxfed/fed-decision/kxfed-25dec'' ''gpt-4.1'')))
             = Some a
         \<and> kalshiData a = Some (Projection d)
         \<and> polymarketData a = None
         \<and> md_yesPrice d = Fin 50
         \<and> js_add (md_yesPrice d) (md_noPrice d) = Fin 100)
   \<and> (\<exists>a d. analysisOf (fst (handler priced
                (post ''https://polymarket.com/event/fed-decision'' ''gpt-4.1'')))
             = Some a
         \<and> polymarketData a = Some (Projection d)
         \<and> md_yesPrice d = Fin 25
         \<and> md_noPrice d = Fin 75
         \<and> js_add (md_yesPrice d) (md_noPrice d) = Fin 100
         \<and> kalshiData a
             = Some (Reported (JObj [(''yesPrice'', JNum (Fin 40)), (''noPrice'', JNum (Fin 70))])))"
proof -
  have early: "\<exists>a d. analysisOf (fst (handler demo
                (post ''https://kalshi.com/markets/kxfed/fed-decision/kxfed-25dec'' ''gpt-4.1'')))
             = Some a
         \<and> kalshiData a = Some (Projection d)
         \<and> polymarketData a = None
         \<and> md_yesPrice d = Fin 50
         \<and> js_add (md_yesPrice d) (md_noPrice d) = Fin 100"
  proof -
    let ?u = "''https://kalshi.com/markets/kxfed/fed-decision/kxfed-25dec''"
    let ?ev = "\<lparr>eventTitle = ''Fed decision'',
                markets = [\<lparr>title = ''Fed cuts in December'', yesPrice = NaN\<rparr>],
                source = Kalshi\<rparr>"
    have m: "req_method (post ?u ''gpt-4.1'') = ''POST''" by (simp add: post_def)
    have b: "req_body (post ?u ''gpt-4.1'') = Body (Some ?u) (Some ''gpt-4.1'')"
      by (simp add: post_def)
    have u: "?u \<noteq> []" and mo: "''gpt-4.1'' \<noteq> []" by simp_all
    have r: "resolve demo ?u = Inr (Kalshi, ''KXFED-25DEC'')" by code_simp
    have f: "(if Kalshi = Polymarket then fetchPolymarketEvent demo ''KXFED-25DEC''
              else fetchKalshiEvent demo ''KXFED-25DEC'') = Some ?ev"
      by code_simp
    have n: "markets ?ev \<noteq> []" by simp
    have g: "fst (generateSearchQuery demo (eventTitle ?ev) Kalshi
                   (if Kalshi = Polymarket then Kalshi else Polymarket) ''gpt-4.1'') = Inr ''Fed''"
      by code_simp
    have s: "(if Kalshi = Polymarket then searchKalshi demo ''Fed''
              else searchPolymarket demo ''Fed'') = []"
      by code_simp
    note run = early_exit_response [OF m b u mo r f n g s]
    obtain resp where e: "earlyReturn ?u ''gpt-4.1'' Kalshi Polymarket ?ev ''Fed'' = Response 200 resp"
      by (simp add: earlyReturn_def)
    obtain a where da: "data resp = Some a" using e by (auto simp: earlyReturn_def)
    obtain calls where h: "handler demo (post ?u ''gpt-4.1'') = (Response 200 resp, calls)"
      using run e by simp
    obtain md d where md: "meta resp = Some md"
      and sl: "(if sourceMarket md = ''polymarket'' then polymarketData a else kalshiData a)
                 = Some (Projection d)"
      and sum: "\<forall>p. md_yesPrice d = Fin p \<and> 0 \<le> p \<and> p \<le> 100
                   \<longrightarrow> js_add (md_yesPrice d) (md_noPrice d) = Fin 100"
      using source_slot_sums_to_100 [OF h da] by blast
    have "sourceMarket md = ''kalshi''" using e md by (auto simp: earlyReturn_def)
    then have k: "kalshiData a = Some (Projection d)" using sl by simp
    have pn: "polymarketData a = None" using e da by (auto simp: earlyReturn_def)
    have "kalshiData a = Some (Projection (earlySourceMarket Kalshi ?u ?ev))"
      using e da by (auto simp: earlyReturn_def)
    then have "d = earlySourceMarket Kalshi ?u ?ev" using k by simp
    then have y: "md_yesPrice d = Fin 50"
      by (simp add: earlySourceMarket_def firstYesPrice_def idx_def truthyNum_def)
    have "js_add (md_yesPrice d) (md_noPrice d) = Fin 100" using sum y by simp
    moreover have "analysisOf (fst (handler demo (post ?u ''gpt-4.1''))) = Some a"
      using h da by simp
    ultimately show ?thesis using k pn y by blast
  qed
  have full: "\<exists>a d. analysisOf (fst (handler priced
                (post ''https://polymarket.com/event/fed-decision'' ''gpt-4.1'')))
             = Some a
         \<and> polymarketData a = Some (Projection d)
         \<and> md_yesPrice d = Fin 25
         \<and> md_noPrice d = Fin 75
         \<and> js_add (md_yesPrice d) (md_noPrice d) = Fin 100
         \<and> kalshiData a
             = Some (Reported (JObj [(''yesPrice'', JNum (Fin 40)), (''noPrice'', JNum (Fin 70))]))"
  proof -
    let ?u = "''https://polymarket.com/event/fed-decision''"
    let ?ev = "\<lparr>eventTitle = ''Fed decision in December?'',
                markets = [\<lparr>title = ''Will the Fed cut rates?'', yesPrice = Fin 25\<rparr>],
                source = Polymarket\<rparr>"
    have j: "JSON_parse priced verdictText = Inr verdictValue" by code_simp
    have v: "verdictValue \<noteq> JNull" "verdictValue \<noteq> JUndefined"
      by (simp_all add: verdictValue_def)
    have k: "matchedSlot verdictValue
               = Some (Reported (JObj [(''yesPrice'', JNum (Fin 40)), (''noPrice'', JNum (Fin 70))]))"
      by code_simp
    obtain a where ba: "buildAnalysis priced ?ev verdictText = Inr a"
      and pd: "polymarketData a = Some (Projection (sourceMarketOf ?ev))"
      and kd: "kalshiData a = matchedSlot verdictValue"
      by (simp add: buildAnalysis_def j v)
    obtain resp where e: "analysisResponse a ''gpt-4.1'' (Some 321) Polymarket Kalshi
                            = Response 200 resp"
      and da: "data resp = Some a"
      and me: "\<forall>md. meta resp = Some md \<longrightarrow> sourceMarket md = ''polymarket''"
      by (simp add: analysisResponse_def)
    have "fst (handler priced (post ?u ''gpt-4.1'')) = Response 200 resp"
      using priced_run ba e by simp
    then obtain calls where h: "handler priced (post ?u ''gpt-4.1'') = (Response 200 resp, calls)"
      by (metis prod.collapse)
    obtain md d where md: "meta resp = Some md"
      and sl: "(if sourceMarket md = ''polymarket'' then polymarketData a else kalshiData a)
                 = Some (Projection d)"
      and no: "md_noPrice d = js_sub (Fin 100) (md_yesPrice d)"
      and sum: "\<forall>p. md_yesPrice d = Fin p \<and> 0 \<le> p \<and> p \<le> 100
                   \<longrightarrow> js_add (md_yesPrice d) (md_noPrice d) = Fin 100"
      using source_slot_sums_to_100 [OF h da] by blast
    have "sourceMarket md = ''polymarket''" using me md by simp
    then have "polymarketData a = Some (Projection d)" using sl by simp
    then have d: "d = sourceMarketOf ?ev" using pd by simp
    have y: "md_yesPrice d = Fin 25"
      unfolding d by (simp add: sourceMarketOf_def firstYesPrice_def idx_def truthyNum_def)
    have n: "md_noPrice d = Fin 75" using no y by (simp add: js_sub_def roundDouble_75)
    have "js_add (md_yesPrice d) (md_noPrice d) = Fin 100" using sum y by simp
    moreover have "analysisOf (fst (handler priced (post ?u ''gpt-4.1''))) = Some a"
      using h da by simp
    ultimately show ?thesis using pd d y n kd k by auto
  qed
  show ?thesis using early full by (rule conjI)
qed

text \<open>
  The bound on \<open>yesPrice\<close> is needed: for a price of \<open>2 ^ 60\<close> the difference is rounded
  and the sum is 128, and for an infinite price the sum is \<open>NaN\<close>.
\<close>

lemma large_price_breaks_sum:
  "js_add (Fin (2 ^ 60)) (js_sub (Fin 100) (Fin (2 ^ 60))) = Fin 128
   \<and> js_add PosInf (js_sub (Fin 100) PosInf) = NaN"
proof -
  define x :: rat where "x = 100 - 2 ^ 60"
  have x0: "x \<noteq> 0" by (simp add: x_def)
  have il: "ilog2 x = 59"
    by (rule ilog2_eq) (simp_all add: x_def)
  have u: "(2::rat) powi (max (ilog2 x - 52) (- 1074)) = 2 ^ 7"
    by (simp add: il)
  have r: "roundHalfEven (x / 2 ^ 7) = - (2 ^ 53 - 1)"
    by (rule roundHalfEven_near) (simp add: x_def)
  have "roundDouble x = Fin (128 - 2 ^ 60)"
    using r by (simp add: roundDouble_def Let_def u x0)
  then have "js_sub (Fin 100) (Fin (2 ^ 60)) = Fin (128 - 2 ^ 60)"
    by (simp add: js_sub_def x_def)
  then show ?thesis using roundDouble_128 by (simp add: js_sub_def)
qed

lemma demo_polymarket_run:
  "fst (handler demo (post ''https://polymarket.com/event/fed-decision'' ''gpt-4.1''))
     = (case buildAnalysis demo
               \<lparr>eventTitle = ''Fed decision in December?'',
                markets = [\<lparr>title = ''Will the Fed cut rates?'', yesPrice = Fin 50\<rparr>],
                source = Polymarket\<rparr>
               verdictText of
          Inl e \<Rightarrow> unhandled e
        | Inr analysis \<Rightarrow> analysisResponse analysis ''gpt-4.1'' (Some 321) Polymarket Kalshi)"
proof -
  let ?u = "''https://polymarket.com/event/fed-decision''"
  let ?ev = "\<lparr>eventTitle = ''Fed decision in December?'',
              markets = [\<lparr>title = ''Will the Fed cut rates?'', yesPrice = Fin 50\<rparr>],
              source = Polymarket\<rparr>"
  let ?found = "[\<lparr>title = ''Fed cuts in December'', yesPrice = Fin 44\<rparr>]"
  let ?verdict = "reply verdictText ''gpt-4.1'' 321"
  have m: "req_method (post ?u ''gpt-4.1'') = ''POST''" by (simp add: post_def)
  have b: "req_body (post ?u ''gpt-4.1'') = Body (Some ?u) (Some ''gpt-4.1'')"
    by (simp add: post_def)
  have u: "?u \<noteq> []" and mo: "''gpt-4.1'' \<noteq> []" by simp_all
  have r: "resolve demo ?u = Inr (Polymarket, ''fed-decision'')" by code_simp
  have f: "(if Polymarket = Polymarket then fetchPolymarketEvent demo ''fed-decision''
            else fetchKalshiEvent demo ''fed-decision'') = Some ?ev"
    by code_simp
  have n: "markets ?ev \<noteq> []" by simp
  have g: "fst (generateSearchQuery demo (eventTitle ?ev) Polymarket
                 (if Polymarket = Polymarket then Kalshi else Polymarket) ''gpt-4.1'')
             = Inr ''Fed''"
    by code_simp
  have s: "(if Polymarket = Polymarket then searchKalshi demo ''Fed''
            else searchPolymarket demo ''Fed'') = ?found"
    by code_simp
  have ne: "?found \<noteq> []" by simp
  have p: "arbitrageAnalysisPrompt demo (sourceMarketOf ?ev) ?found
             (if Polymarket = Polymarket then Kalshi else Polymarket)
             = (''Answer with a JSON object.'', ''Compare the markets.'')"
    by (simp add: demo_def)
  have c: "(if isOpenAIModel ''gpt-4.1'' then callOpenAIResponses demo
            else callGrokResponses demo)
             ''Compare the markets.'' ''Answer with a JSON object.'' JsonObject ''gpt-4.1'' 3
             = Inr ?verdict"
    by code_simp
  have t: "join [CHR 0x0A] (messageTexts (ai_output ?verdict)) = verdictText"
    by (simp add: reply_def messageTexts_def List.map_filter_simps)
  have a: "ai_model ?verdict = ''gpt-4.1''" "total_tokens ?verdict = Some 321"
    by (simp_all add: reply_def)
  show ?thesis
    using verdict_response [OF m b u mo r f n g s ne p c] unfolding t a by simp
qed

text \<open>
  C2 as stated fails: for the Polymarket URL of the sample world and an OpenAI model, the
  analysis holds in its Kalshi slot the matched market as the language model reported it,
  with 40 for yes and 70 for no, which add up to 110.
\<close>

theorem matched_slot_sums_to_110:
  "map_option kalshiData
     (analysisOf (fst (handler demo (post ''https://polymarket.com/event/fed-decision'' ''gpt-4.1''))))
     = Some (Some (Reported (JObj [(''yesPrice'', JNum (Fin 40)), (''noPrice'', JNum (Fin 70))])))
   \<and> js_add (Fin 40) (Fin 70) = Fin 110"
proof -
  have j: "JSON_parse demo verdictText = Inr verdictValue" by code_simp
  have v: "verdictValue \<noteq> JNull" "verdictValue \<noteq> JUndefined" by (simp_all add: verdictValue_def)
  have k: "matchedSlot verdictValue
             = Some (Reported (JObj [(''yesPrice'', JNum (Fin 40)), (''noPrice'', JNum (Fin 70))]))"
    by code_simp
  have "map_option kalshiData
          (analysisOf (fst (handler demo
             (post ''https://polymarket.com/event/fed-decision'' ''gpt-4.1''))))
          = Some (matchedSlot verdictValue)"
    unfolding demo_polymarket_run by (simp add: buildAnalysis_def j v analysisResponse_def)
  then show ?thesis by (simp add: k roundDouble_110)
qed

text \<open>
  C9: when the first market of the source event has the price 0, the record of the source
  event has \<open>yesPrice\<close> 50 and \<open>noPrice\<close> 50, both in the record that \<open>analyzeArbitrage\<close>
  builds and puts in the slot of the source platform, and in the one of the early return.
\<close>

theorem zero_price_projected_as_fifty:
  assumes "markets sourceEvent = m # ms" and "yesPrice m = Fin 0"
  shows "md_yesPrice (sourceMarketOf sourceEvent) = Fin 50
       \<and> md_noPrice (sourceMarketOf sourceEvent) = Fin 50
       \<and> md_yesPrice (earlySourceMarket platform u sourceEvent) = Fin 50
       \<and> md_noPrice (earlySourceMarket platform u sourceEvent) = Fin 50
       \<and> (fst (analyzeArbitrage env sourceEvent rs sp model) = Inr (a, used)
            \<longrightarrow> (if source sourceEvent = Polymarket then polymarketData a else kalshiData a)
                  = Some (Projection (sourceMarketOf sourceEvent)))
       \<and> (analysisOf (earlyReturn u model platform sp sourceEvent q) = Some b
            \<longrightarrow> (if platform = Polymarket then polymarketData b else kalshiData b)
                  = Some (Projection (earlySourceMarket platform u sourceEvent)))"
proof -
  have f: "firstYesPrice (markets sourceEvent) = Fin 50"
    using assms by (simp add: firstYesPrice_def idx_def truthyNum_def)
  have j: "fst (analyzeArbitrage env sourceEvent rs sp model) = Inr (a, used)
            \<longrightarrow> (if source sourceEvent = Polymarket then polymarketData a else kalshiData a)
                  = Some (Projection (sourceMarketOf sourceEvent))"
    by (cases "source sourceEvent")
       (auto simp: analyzeArbitrage_def buildAnalysis_def Let_def
             split: prod.splits sum.splits if_splits)
  have e: "analysisOf (earlyReturn u model platform sp sourceEvent q) = Some b
            \<longrightarrow> (if platform = Polymarket then polymarketData b else kalshiData b)
                  = Some (Projection (earlySourceMarket platform u sourceEvent))"
    by (cases platform) (auto simp: earlyReturn_def)
  show ?thesis
    using j e by (simp add: sourceMarketOf_def earlySourceMarket_def f fifty_fifty)
qed

text \<open>
  C9, an example: a Kalshi event whose only market has last price, bid and ask 0 is fetched
  with the price 0 and is shown as 50 and 50.
\<close>

theorem zero_price_projected_as_fifty_witness:
  "fetchKalshiEvent
     (demo\<lparr>dflowEvent := (\<lambda>ticker. Inr
        \<lparr>de_title = Some ''Fed decision'',
         de_markets = Some
           [\<lparr>dm_title = Some ''Fed cuts in December'', last_price = Some (Fin 0),
             yes_bid = Some (Fin 0), yes_ask = Some (Fin 0)\<rparr>]\<rparr>)\<rparr>)
     ''KXFED-25DEC''
     = Some \<lparr>eventTitle = ''Fed decision'',
              markets = [\<lparr>title = ''Fed cuts in December'', yesPrice = Fin 0\<rparr>],
              source = Kalshi\<rparr>
   \<and> md_yesPrice
       (sourceMarketOf
          \<lparr>eventTitle = ''Fed decision'',
           markets = [\<lparr>title = ''Fed cuts in December'', yesPrice = Fin 0\<rparr>],
           source = Kalshi\<rparr>) = Fin 50
   \<and> md_noPrice
       (sourceMarketOf
          \<lparr>eventTitle = ''Fed decision'',
           markets = [\<lparr>title = ''Fed cuts in December'', yesPrice = Fin 0\<rparr>],
           source = Kalshi\<rparr>) = Fin 50
   \<and> md_yesPrice
       (earlySourceMarket Kalshi ''https://kalshi.com/events/kxfed-25dec''
          \<lparr>eventTitle = ''Fed decision'',
           markets = [\<lparr>title = ''Fed cuts in December'', yesPrice = Fin 0\<rparr>],
           source = Kalshi\<rparr>) = Fin 50
   \<and> md_noPrice
       (earlySourceMarket Kalshi ''https://kalshi.com/events/kxfed-25dec''
          \<lparr>eventTitle = ''Fed decision'',
           markets = [\<lparr>title = ''Fed cuts in December'', yesPrice = Fin 0\<rparr>],
           source = Kalshi\<rparr>) = Fin 50"
proof -
  let ?m = "\<lparr>title = ''Fed cuts in December'', yesPrice = Fin 0\<rparr>"
  let ?ev = "\<lparr>eventTitle = ''Fed decision'', markets = [?m], source = Kalshi\<rparr>"
  have f: "fetchKalshiEvent
     (demo\<lparr>dflowEvent := (\<lambda>ticker. Inr
        \<lparr>de_title = Some ''Fed decision'',
         de_markets = Some
           [\<lparr>dm_title = Some ''Fed cuts in December'', last_price = Some (Fin 0),
             yes_bid = Some (Fin 0), yes_ask = Some (Fin 0)\<rparr>]\<rparr>)\<rparr>)
     ''KXFED-25DEC'' = Some ?ev"
    by code_simp
  have ms: "markets ?ev = ?m # []" by simp
  have y: "yesPrice ?m = Fin 0" by simp
  note t = zero_price_projected_as_fifty
             [OF ms y, where platform = Kalshi and u = "''https://kalshi.com/events/kxfed-25dec''"]
  show ?thesis using f t by blast
qed

end
